theory Spec2Isabelle
  imports Main "HOL-Library.Sublist"
begin

section \<open>Go strings\<close>

text \<open>
  A Go string is a sequence of bytes, so it is modelled as a \<^typ>\<open>char list\<close>
  (a \<^typ>\<open>char\<close> is one byte); text outside ASCII appears as its UTF-8 bytes.
  The functions of package \<^verbatim>\<open>strings\<close> and \<^verbatim>\<open>slices\<close> that the rule
  engine calls are written out below under the names they have in Go.
\<close>

definition HasPrefix :: "string \<Rightarrow> string \<Rightarrow> bool" where
  "HasPrefix s p = prefix p s"

definition HasSuffix :: "string \<Rightarrow> string \<Rightarrow> bool" where
  "HasSuffix s x = suffix x s"

definition TrimPrefix :: "string \<Rightarrow> string \<Rightarrow> string" where
  "TrimPrefix s p = (if HasPrefix s p then drop (length p) s else s)"

text \<open>\<^verbatim>\<open>strings.Index\<close>: the first position at which \<open>sub\<close> starts, \<open>None\<close> for Go's -1.\<close>

fun Index :: "string \<Rightarrow> string \<Rightarrow> nat option" where
  "Index [] sub = (if sub = [] then Some 0 else None)"
| "Index (c # s) sub =
     (if prefix sub (c # s) then Some 0 else map_option Suc (Index s sub))"

definition Contains :: "string \<Rightarrow> string \<Rightarrow> bool" where
  "Contains s sub = (Index s sub \<noteq> None)"

text \<open>
  The white space of \<^verbatim>\<open>unicode.IsSpace\<close>: the six ASCII characters, U+0085, U+00A0,
  U+1680, U+2000 to U+200A, U+2028, U+2029, U+202F, U+205F and U+3000, each as its
  UTF-8 encoding. The encoding of a code point is unique and starts with a byte that
  is no continuation byte, so a string starts (ends) with a white-space rune exactly
  when it starts (ends) with one of these byte sequences.
\<close>

definition unicode_space :: "string list" where
  "unicode_space =
    [[CHR 0x09], [CHR 0x0A], [CHR 0x0B], [CHR 0x0C], [CHR 0x0D], [CHR 0x20],
     [CHR 0xC2, CHR 0x85], [CHR 0xC2, CHR 0xA0], [CHR 0xE1, CHR 0x9A, CHR 0x80],
     [CHR 0xE2, CHR 0x80, CHR 0x80], [CHR 0xE2, CHR 0x80, CHR 0x81],
     [CHR 0xE2, CHR 0x80, CHR 0x82], [CHR 0xE2, CHR 0x80, CHR 0x83],
     [CHR 0xE2, CHR 0x80, CHR 0x84], [CHR 0xE2, CHR 0x80, CHR 0x85],
     [CHR 0xE2, CHR 0x80, CHR 0x86], [CHR 0xE2, CHR 0x80, CHR 0x87],
     [CHR 0xE2, CHR 0x80, CHR 0x88], [CHR 0xE2, CHR 0x80, CHR 0x89],
     [CHR 0xE2, CHR 0x80, CHR 0x8A], [CHR 0xE2, CHR 0x80, CHR 0xA8],
     [CHR 0xE2, CHR 0x80, CHR 0xA9], [CHR 0xE2, CHR 0x80, CHR 0xAF],
     [CHR 0xE2, CHR 0x81, CHR 0x9F], [CHR 0xE3, CHR 0x80, CHR 0x80]]"

text \<open>The number of bytes of the white-space rune a string starts (ends) with, 0 if none.\<close>

definition leading_space :: "string \<Rightarrow> nat" where
  "leading_space s =
     (case find (\<lambda>w. prefix w s) unicode_space of None \<Rightarrow> 0 | Some w \<Rightarrow> length w)"

definition trailing_space :: "string \<Rightarrow> nat" where
  "trailing_space s =
     (case find (\<lambda>w. suffix w s) unicode_space of None \<Rightarrow> 0 | Some w \<Rightarrow> length w)"

lemma leading_space_le: "leading_space s \<le> length s"
  by (auto simp: leading_space_def find_Some_iff prefix_length_le split: option.splits)

lemma trailing_space_le: "trailing_space s \<le> length s"
  by (auto simp: trailing_space_def find_Some_iff suffix_length_le split: option.splits)

function TrimLeft :: "string \<Rightarrow> string" where
  "TrimLeft s =
     (if leading_space s = 0 then s else TrimLeft (drop (leading_space s) s))"
  by pat_completeness auto
termination
proof (relation "measure length")
  show "wf (measure length)" by simp
next
  fix s :: string
  assume "leading_space s \<noteq> 0"
  moreover have "leading_space s \<le> length s" by (rule leading_space_le)
  ultimately show "(drop (leading_space s) s, s) \<in> measure length" by simp
qed

function TrimRight :: "string \<Rightarrow> string" where
  "TrimRight s =
     (if trailing_space s = 0 then s
      else TrimRight (take (length s - trailing_space s) s))"
  by pat_completeness auto
termination
proof (relation "measure length")
  show "wf (measure length)" by simp
next
  fix s :: string
  assume "trailing_space s \<noteq> 0"
  moreover have "trailing_space s \<le> length s" by (rule trailing_space_le)
  ultimately show "(take (length s - trailing_space s) s, s) \<in> measure length" by simp
qed

declare TrimLeft.simps [simp del] TrimRight.simps [simp del]

definition TrimSpace :: "string \<Rightarrow> string" where
  "TrimSpace s = TrimRight (TrimLeft s)"

text \<open>
  \<^verbatim>\<open>strings.Split\<close> and \<^verbatim>\<open>strings.Join\<close>. The engine only splits at a separator of
  one byte (a tab, a space or a colon), so the separator of \<open>Split\<close> is a byte.
\<close>

fun Split :: "string \<Rightarrow> char \<Rightarrow> string list" where
  "Split [] sep = [[]]"
| "Split (c # s) sep =
     (if c = sep then [] # Split s sep
      else (case Split s sep of [] \<Rightarrow> [[c]] | h # t \<Rightarrow> (c # h) # t))"

fun Join :: "string list \<Rightarrow> string \<Rightarrow> string" where
  "Join [] sep = []"
| "Join [x] sep = x"
| "Join (x # y # ys) sep = x @ sep @ Join (y # ys) sep"

text \<open>
  \<^verbatim>\<open>strings.SplitN(s, sep, 2)\<close>, as the pair of the text before the first \<open>sep\<close> and the
  text after it (\<open>None\<close> when Go returns the one-element slice).
\<close>

definition SplitN2 :: "string \<Rightarrow> string \<Rightarrow> (string \<times> string) option" where
  "SplitN2 s sep =
     (case Index s sep of None \<Rightarrow> None
      | Some i \<Rightarrow> Some (take i s, drop (i + length sep) s))"

text \<open>\<^verbatim>\<open>strings.Replace(s, old, new, 1)\<close>: the first occurrence only.\<close>

definition Replace1 :: "string \<Rightarrow> string \<Rightarrow> string \<Rightarrow> string" where
  "Replace1 s old new =
     (case Index s old of None \<Rightarrow> s
      | Some i \<Rightarrow> take i s @ new @ drop (i + length old) s)"

text \<open>
  The number of bytes \<^verbatim>\<open>utf8.DecodeRuneInString\<close> consumes at the head of a non-empty
  string: the length of a well-formed UTF-8 sequence, 1 for a byte that starts none.
\<close>

definition is_cont :: "char \<Rightarrow> bool" where
  "is_cont c = (0x80 \<le> (of_char c :: int) \<and> (of_char c :: int) \<le> 0xBF)"

definition in_range :: "char \<Rightarrow> int \<Rightarrow> int \<Rightarrow> bool" where
  "in_range c lo hi = (lo \<le> (of_char c :: int) \<and> (of_char c :: int) \<le> hi)"

fun rune_width :: "string \<Rightarrow> nat" where
  "rune_width [] = 0"
| "rune_width [a] = 1"
| "rune_width [a, b] = (if in_range a 0xC2 0xDF \<and> is_cont b then 2 else 1)"
| "rune_width [a, b, c] =
     (if in_range a 0xC2 0xDF \<and> is_cont b then 2
      else if (in_range a 0xE1 0xEC \<or> in_range a 0xEE 0xEF) \<and> is_cont b \<and> is_cont c then 3
      else if in_range a 0xE0 0xE0 \<and> in_range b 0xA0 0xBF \<and> is_cont c then 3
      else if in_range a 0xED 0xED \<and> in_range b 0x80 0x9F \<and> is_cont c then 3
      else 1)"
| "rune_width (a # b # c # d # r) =
     (if in_range a 0xC2 0xDF \<and> is_cont b then 2
      else if (in_range a 0xE1 0xEC \<or> in_range a 0xEE 0xEF) \<and> is_cont b \<and> is_cont c then 3
      else if in_range a 0xE0 0xE0 \<and> in_range b 0xA0 0xBF \<and> is_cont c then 3
      else if in_range a 0xED 0xED \<and> in_range b 0x80 0x9F \<and> is_cont c then 3
      else if in_range a 0xF1 0xF3 \<and> is_cont b \<and> is_cont c \<and> is_cont d then 4
      else if in_range a 0xF0 0xF0 \<and> in_range b 0x90 0xBF \<and> is_cont c \<and> is_cont d then 4
      else if in_range a 0xF4 0xF4 \<and> in_range b 0x80 0x8F \<and> is_cont c \<and> is_cont d then 4
      else 1)"

lemma rune_width_pos: "s \<noteq> [] \<Longrightarrow> 0 < rune_width s"
  by (induction s rule: rune_width.induct) auto

lemma rune_width_le: "rune_width s \<le> length s"
  by (induction s rule: rune_width.induct) auto

text \<open>
  \<^verbatim>\<open>strings.ReplaceAll\<close>: every occurrence, found from the left and not overlapping.
  An empty \<open>old\<close> matches before every rune and at the end of the string.
\<close>

fun replace_nonempty :: "string \<Rightarrow> string \<Rightarrow> string \<Rightarrow> string" where
  "replace_nonempty [] old new = []"
| "replace_nonempty (c # s) old new =
     (if prefix old (c # s)
      then new @ replace_nonempty (drop (length old - 1) s) old new
      else c # replace_nonempty s old new)"

function replace_empty :: "string \<Rightarrow> string \<Rightarrow> string" where
  "replace_empty s new =
     (if s = [] then new
      else new @ take (rune_width s) s @ replace_empty (drop (rune_width s) s) new)"
  by pat_completeness auto
termination
proof (relation "measure (\<lambda>(s, new). length s)")
  show "wf (measure (\<lambda>(s, new). length s))" by simp
next
  fix s new :: string
  assume "s \<noteq> []"
  then show "((drop (rune_width s) s, new), (s, new)) \<in> measure (\<lambda>(s, new). length s)"
    using rune_width_pos [of s] by simp
qed

declare replace_empty.simps [simp del]

definition ReplaceAll :: "string \<Rightarrow> string \<Rightarrow> string \<Rightarrow> string" where
  "ReplaceAll s old new =
     (if old = [] then replace_empty s new else replace_nonempty s old new)"

text \<open>\<^verbatim>\<open>strings.Count(s, sub)\<close> for a separator of one byte.\<close>

definition Count :: "string \<Rightarrow> char \<Rightarrow> nat" where
  "Count s c = length (filter (\<lambda>x. x = c) s)"

text \<open>
  \<^verbatim>\<open>strings.ToLower\<close> on the ASCII letters. The engine only compares the lower-cased
  rule with the ASCII flags, and no rune outside ASCII has a lower case among the
  letters of the flags, so the bytes outside \<open>A\<close> to \<open>Z\<close> are kept as they are.
\<close>

definition lower_byte :: "char \<Rightarrow> char" where
  "lower_byte c =
     (if in_range c 0x41 0x5A then char_of ((of_char c :: int) + 32) else c)"

definition ToLower :: "string \<Rightarrow> string" where
  "ToLower s = map lower_byte s"

text \<open>\<^verbatim>\<open>strings.Fields\<close>: the maximal runs of bytes between white-space runes.\<close>

function fields_from :: "string \<Rightarrow> string \<Rightarrow> string list" where
  "fields_from cur s =
     (if s = [] then (if cur = [] then [] else [cur])
      else if leading_space s \<noteq> 0
        then (if cur = [] then [] else [cur]) @ fields_from [] (drop (leading_space s) s)
      else fields_from (cur @ [hd s]) (tl s))"
  by pat_completeness auto
termination
proof (relation "measure (\<lambda>(cur, s). length s)")
  show "wf (measure (\<lambda>(cur, s). length s))" by simp
next
  fix cur s :: string
  assume "s \<noteq> []" "leading_space s \<noteq> 0"
  then show "(([], drop (leading_space s) s), (cur, s)) \<in> measure (\<lambda>(cur, s). length s)"
    by simp
next
  fix cur s :: string
  assume "s \<noteq> []"
  then show "((cur @ [hd s], tl s), (cur, s)) \<in> measure (\<lambda>(cur, s). length s)"
    by simp
qed

declare fields_from.simps [simp del]

definition Fields :: "string \<Rightarrow> string list" where
  "Fields s = fields_from [] s"

text \<open>\<^verbatim>\<open>slices.Compact\<close>: runs of equal neighbours collapse to their first element.\<close>

fun Compact :: "string list \<Rightarrow> string list" where
  "Compact [] = []"
| "Compact [x] = [x]"
| "Compact (x # y # r) = (if x = y then Compact (y # r) else x # Compact (y # r))"


text \<open>\<^verbatim>\<open>slices.Contains\<close>.\<close>

definition slices_Contains :: "string list \<Rightarrow> string \<Rightarrow> bool" where
  "slices_Contains xs x = (x \<in> set xs)"

section \<open>The libraries and data feeds the engine calls\<close>

text \<open>
  The engine calls three libraries whose code is not part of the repository:
  \<^verbatim>\<open>golang.org/x/net/idna\<close> (\<^verbatim>\<open>idna.ToASCII\<close>), \<^verbatim>\<open>net/url\<close> (\<^verbatim>\<open>url.Parse\<close>, of whose
  result the engine reads the fields \<^verbatim>\<open>Host\<close> and \<^verbatim>\<open>Path\<close>) and \<^verbatim>\<open>regexp\<close>
  (\<^verbatim>\<open>regexp.MustCompile\<close>, \<^verbatim>\<open>MatchString\<close>), and it reads two lists that
  \<^verbatim>\<open>data.NewIANAExtensions\<close> and \<^verbatim>\<open>data.NewPSLExtensions\<close> build from files fetched
  over the network. They are parameters of the model, collected in one record;
  \<open>None\<close> stands for the error a library returns, and for the panic of a failed fetch.
  A compiled \<^verbatim>\<open>*regexp.Regexp\<close> is represented by its source text, which is what
  \<^verbatim>\<open>String()\<close> returns.
\<close>

record URL =
  Host :: string
  Path :: string

record env =
  idna_ToASCII :: "string \<Rightarrow> string option"
  url_Parse :: "string \<Rightarrow> URL option"
  regexp_Compile :: "string \<Rightarrow> bool"
  regexp_MatchString :: "string \<Rightarrow> string \<Rightarrow> bool"
  NewIANAExtensions :: "string list option"
  NewPSLExtensions :: "string list option"

section \<open>The normalizer (internal/ruler/transformer.go)\<close>

definition idnazeString :: "env \<Rightarrow> string \<Rightarrow> string" where
  "idnazeString E subject =
     (case idna_ToASCII E subject of None \<Rightarrow> subject | Some result \<Rightarrow> result)"

text \<open>
  \<^verbatim>\<open>regex_to_skip\<close> is an alternation of literals, each followed by \<^verbatim>\<open>$\<close>: it matches
  the strings that end with one of them.
\<close>

definition skip_suffixes :: "string list" where
  "skip_suffixes =
    [''localhost'', ''localdomain'', ''local'', ''broadcasthost'', ''0.0.0.0'', ''allhosts'',
     ''allnodes'', ''allrouters'', ''localnet'', ''loopback'', ''mcastprefix'']"

definition regex_to_skip :: "string \<Rightarrow> bool" where
  "regex_to_skip s = list_ex (\<lambda>w. HasSuffix s w) skip_suffixes"

text \<open>The loop of \<open>idnaze\<close> over the subjects of a line; \<open>None\<close> is its error return.\<close>

fun idnaze_subjects :: "env \<Rightarrow> string list \<Rightarrow> string list option" where
  "idnaze_subjects E [] = Some []"
| "idnaze_subjects E (subject # rest) =
     (if subject = [] \<or> regex_to_skip subject
      then map_option ((#) subject) (idnaze_subjects E rest)
      else if Contains subject ''#'' then None
      else map_option ((#) (idnazeString E subject)) (idnaze_subjects E rest))"

definition idnaze :: "env \<Rightarrow> string \<Rightarrow> string option" where
  "idnaze E s0 =
     (let s = TrimSpace s0 in
      if s = [] \<or> HasPrefix s ''#'' \<or> regex_to_skip s then Some s
      else
        (let separator =
           (if Contains s [CHR 0x09] then Some (CHR 0x09)
            else if Contains s '' '' then Some CHR '' '' else None)
         in case separator of
           None \<Rightarrow> Some (idnazeString E s)
         | Some sep \<Rightarrow>
             (let (subjects, comment) =
                (case SplitN2 s ''#'' of None \<Rightarrow> (s, []) | Some x \<Rightarrow> x)
              in case idnaze_subjects E (Split subjects sep) of
                   None \<Rightarrow> None
                 | Some idnazed_subjects \<Rightarrow>
                     (if comment \<noteq> [] then Some (Join idnazed_subjects [sep] @ ''#'' @ comment)
                      else Some (Join idnazed_subjects [sep])))))"

definition ExtractNetLocationFromURL :: "env \<Rightarrow> string \<Rightarrow> string option" where
  "ExtractNetLocationFromURL E rawURL =
     (if rawURL = [] then None
      else case url_Parse E rawURL of
        None \<Rightarrow> None
      | Some urlObj \<Rightarrow>
          (let result =
             (if Host urlObj = [] \<and> Path urlObj \<noteq> [] then Path urlObj
              else if Host urlObj \<noteq> [] then
                (if Contains (Host urlObj) '':'' then hd (Split (Host urlObj) CHR '':'')
                 else Host urlObj)
              else rawURL);
             result = (case Index result ''//'' of None \<Rightarrow> result | Some i \<Rightarrow> drop (i + 2) result);
             result = (case Index result ''/'' of None \<Rightarrow> result | Some i \<Rightarrow> take i result)
           in Some result))"

definition NormalizeURL :: "env \<Rightarrow> string \<Rightarrow> string" where
  "NormalizeURL E urlStr =
     (case ExtractNetLocationFromURL E urlStr of
        None \<Rightarrow> urlStr
      | Some netloc \<Rightarrow>
          (case idnaze E netloc of
             None \<Rightarrow> urlStr
           | Some idnazedNetloc \<Rightarrow> Replace1 urlStr netloc idnazedNetloc))"

text \<open>
  The slice \<^verbatim>\<open>s[:strings.Index(s, "#")-1]\<close> of \<open>NormalizeSubject\<close> and \<open>NormalizeRule\<close>.
  It is taken of a string that does not start with \<^verbatim>\<open>#\<close>, so the index is at least 1
  and the bound is never negative (lemma \<open>Index_hash_pos\<close> below).
\<close>

definition before_hash :: "string \<Rightarrow> string" where
  "before_hash s = (case Index s ''#'' of None \<Rightarrow> s | Some i \<Rightarrow> take (i - 1) s)"

definition NormalizeSubject :: "env \<Rightarrow> string \<Rightarrow> bool \<Rightarrow> string" where
  "NormalizeSubject E subject0 complementHandling =
     (let subject = TrimSpace subject0 in
      if subject = [] \<or> HasPrefix subject ''#'' then []
      else if HasPrefix subject ''http://'' \<or> HasPrefix subject ''https://''
        then NormalizeURL E subject
      else
        (let subject = (if Contains subject ''#'' then TrimSpace (before_hash subject)
                        else subject);
             idnazedSubject = (case idnaze E subject of None \<Rightarrow> subject | Some r \<Rightarrow> r)
         in if complementHandling then TrimPrefix idnazedSubject ''www.''
            else idnazedSubject))"

definition NormalizeRule :: "env \<Rightarrow> string \<Rightarrow> string" where
  "NormalizeRule E rule0 =
     (let rule = TrimSpace rule0 in
      if rule = [] \<or> HasPrefix rule ''#'' then []
      else if HasPrefix rule ''http://'' \<or> HasPrefix rule ''https://''
        then NormalizeURL E rule
      else
        (let rule = (if Contains rule ''#'' then TrimSpace (before_hash rule) else rule)
         in case idnaze E rule of None \<Rightarrow> rule | Some idnazedRule \<Rightarrow> idnazedRule))"


section \<open>The rule engine (package ruler)\<close>

text \<open>
  The struct \<^verbatim>\<open>InternalRuler\<close>. The three indices are Go maps from a search key to the
  slice of the rules filed under it; a missing key reads as the empty slice. The logger
  only writes debug records and is left out, and the flag tables, which the constructor
  sets and no method changes, are constants.
\<close>

record InternalRuler =
  strict :: "string \<rightharpoonup> string list"
  ends :: "string \<rightharpoonup> string list"
  present :: "string \<rightharpoonup> string list"
  regex :: string
  compiled_regexp :: "string option"
  handle_complement :: bool
  extensions :: "string list"

definition FlagsAll :: "string list" where
  "FlagsAll = [''ALL '', ''ALL:'', ''ALL#'', ''ALL,'', ''ALL@'']"

definition FlagsReg :: "string list" where
  "FlagsReg = [''REG '', ''REG:'', ''REG#'', ''REG,'', ''REG@'']"

definition FlagsRzdb :: "string list" where
  "FlagsRzdb = [''RZD '', ''RZD:'', ''RZD#'', ''RZD,'', ''RZD@'',
                ''RZDB '', ''RZDB:'', ''RZDB#'', ''RZDB,'', ''RZDB@'']"

definition NewInternalRuler :: "bool \<Rightarrow> InternalRuler" where
  "NewInternalRuler hc =
     \<lparr>strict = Map.empty, ends = Map.empty, present = Map.empty, regex = [],
      compiled_regexp = None, handle_complement = hc, extensions = []\<rparr>"

text \<open>What stops the program: the panic of \<^verbatim>\<open>regexp.MustCompile\<close> and that of a failed fetch.\<close>

datatype panic = CompilePanic string | FetchPanic

definition commonSearchKeyFromRule :: "string \<Rightarrow> string" where
  "commonSearchKeyFromRule rule = (if length rule < 4 then rule else take 4 rule)"

definition endsSearchKeyFromRule :: "string \<Rightarrow> string" where
  "endsSearchKeyFromRule rule = (if length rule < 3 then rule else drop (length rule - 3) rule)"

definition getKnownExtensions :: "env \<Rightarrow> InternalRuler \<Rightarrow> panic + (string list \<times> InternalRuler)" where
  "getKnownExtensions E st =
     (if length (extensions st) = 0 then
        (case NewIANAExtensions E of
           None \<Rightarrow> Inl FetchPanic
         | Some iana \<Rightarrow>
             (case NewPSLExtensions E of
                None \<Rightarrow> Inl FetchPanic
              | Some psl \<Rightarrow>
                  Inr (extensions st @ iana @ psl, st\<lparr>extensions := extensions st @ iana @ psl\<rparr>)))
      else Inr (extensions st, st))"

text \<open>Reading a map at a key: the nil slice for a missing key.\<close>

definition bucket :: "(string \<rightharpoonup> string list) \<Rightarrow> string \<Rightarrow> string list" where
  "bucket m k = (case m k of None \<Rightarrow> [] | Some rules \<Rightarrow> rules)"

definition pushStrictRule :: "InternalRuler \<Rightarrow> string \<Rightarrow> InternalRuler" where
  "pushStrictRule st rule =
     (let searchKey = commonSearchKeyFromRule rule
      in st\<lparr>strict := (strict st)(searchKey \<mapsto> bucket (strict st) searchKey @ [rule])\<rparr>)"

text \<open>
  The loop of \<open>pullStrictRule\<close> and \<open>pullEndsRule\<close> cuts the first element equal to the
  rule out of the slice and stops; a slice without the rule is not written back.
\<close>

definition pull_from :: "(string \<rightharpoonup> string list) \<Rightarrow> string \<Rightarrow> string \<Rightarrow> (string \<rightharpoonup> string list)" where
  "pull_from m searchKey rule =
     (case m searchKey of
        None \<Rightarrow> m
      | Some rules \<Rightarrow> if rule \<in> set rules then m(searchKey \<mapsto> remove1 rule rules) else m)"

definition pullStrictRule :: "InternalRuler \<Rightarrow> string \<Rightarrow> InternalRuler" where
  "pullStrictRule st rule =
     st\<lparr>strict := pull_from (strict st) (commonSearchKeyFromRule rule) rule\<rparr>"

definition pushEndsRule :: "InternalRuler \<Rightarrow> string \<Rightarrow> InternalRuler" where
  "pushEndsRule st rule =
     (let searchKey = endsSearchKeyFromRule rule
      in st\<lparr>ends := (ends st)(searchKey \<mapsto> bucket (ends st) searchKey @ [rule])\<rparr>)"

definition pullEndsRule :: "InternalRuler \<Rightarrow> string \<Rightarrow> InternalRuler" where
  "pullEndsRule st rule =
     st\<lparr>ends := pull_from (ends st) (endsSearchKeyFromRule rule) rule\<rparr>"

definition MustCompile :: "env \<Rightarrow> string \<Rightarrow> panic + string" where
  "MustCompile E str = (if regexp_Compile E str then Inr str else Inl (CompilePanic str))"

definition pushRegexRule :: "env \<Rightarrow> InternalRuler \<Rightarrow> string \<Rightarrow> panic + InternalRuler" where
  "pushRegexRule E st rule =
     (let st1 = (if regex st = [] then st\<lparr>regex := rule\<rparr>
                 else st\<lparr>regex := regex st @ ''|'' @ rule\<rparr>)
      in case compiled_regexp st1 of
           None \<Rightarrow>
             (case MustCompile E (regex st1) of
                Inl p \<Rightarrow> Inl p
              | Inr re \<Rightarrow> Inr (st1\<lparr>compiled_regexp := Some re\<rparr>))
         | Some old \<Rightarrow>
             (case MustCompile E (old @ ''|'' @ rule) of
                Inl p \<Rightarrow> Inl p
              | Inr re \<Rightarrow> Inr (st1\<lparr>compiled_regexp := Some re\<rparr>)))"

definition pullRegexRule :: "env \<Rightarrow> InternalRuler \<Rightarrow> string \<Rightarrow> panic + InternalRuler" where
  "pullRegexRule E st rule =
     (if regex st = [] then Inr st
      else if compiled_regexp st = None then Inr st
      else
        (let st1 = st\<lparr>regex := ReplaceAll (regex st) rule []\<rparr>
         in if regex st1 = [] then Inr (st1\<lparr>compiled_regexp := None\<rparr>)
            else (case MustCompile E (regex st1) of
                    Inl p \<Rightarrow> Inl p
                  | Inr re \<Rightarrow> Inr (st1\<lparr>compiled_regexp := Some re\<rparr>))))"

definition HasFlag :: "string list \<Rightarrow> string \<Rightarrow> bool" where
  "HasFlag flags rule =
     list_ex (\<lambda>flag. HasPrefix (TrimSpace (ToLower rule)) (ToLower flag)) flags"

definition cleanupFlags :: "string list \<Rightarrow> string \<Rightarrow> string" where
  "cleanupFlags flags rule0 =
     foldl (\<lambda>rule flag.
              if \<not> HasFlag [flag] rule then rule
              else TrimSpace (TrimPrefix (TrimPrefix rule flag) (ToLower flag)))
           rule0 flags"

definition parseAllFlaggedRule :: "InternalRuler \<Rightarrow> string \<Rightarrow> bool \<times> InternalRuler" where
  "parseAllFlaggedRule st rule =
     (if \<not> HasFlag FlagsAll rule then (False, st)
      else
        (let record = cleanupFlags FlagsAll rule in
         if HasPrefix record ''.'' then
           (let st1 =
              (if Count record CHR ''.'' > 1 then
                 (let new_record = TrimPrefix record ''.'';
                      st' = (if handle_complement st
                             then pushStrictRule st (''www.'' @ new_record) else st)
                  in pushStrictRule st' new_record)
               else st)
            in (True, pushEndsRule st1 record))
         else (True, pushStrictRule (pushEndsRule st (''.'' @ record)) record)))"

definition unparseAllFlaggedRule :: "InternalRuler \<Rightarrow> string \<Rightarrow> bool \<times> InternalRuler" where
  "unparseAllFlaggedRule st rule =
     (if \<not> HasFlag FlagsAll rule then (False, st)
      else
        (let record = cleanupFlags FlagsAll rule in
         if HasPrefix record ''.'' then
           (let st1 =
              (if Count record CHR ''.'' > 1 then
                 (let new_record = TrimPrefix record ''.'';
                      st' = (if handle_complement st
                             then pullStrictRule st (''www.'' @ new_record) else st)
                  in pullStrictRule st' new_record)
               else st)
            in (True, pullEndsRule st1 record))
         else (True, pullStrictRule (pullEndsRule st (''.'' @ record)) record)))"

definition parseRegexFlaggedRule :: "env \<Rightarrow> InternalRuler \<Rightarrow> string \<Rightarrow> panic + (bool \<times> InternalRuler)" where
  "parseRegexFlaggedRule E st rule =
     (if \<not> HasFlag FlagsReg rule then Inr (False, st)
      else (case pushRegexRule E st (cleanupFlags FlagsReg rule) of
              Inl p \<Rightarrow> Inl p
            | Inr st' \<Rightarrow> Inr (True, st')))"

definition unparseRegexFlaggedRule :: "env \<Rightarrow> InternalRuler \<Rightarrow> string \<Rightarrow> panic + (bool \<times> InternalRuler)" where
  "unparseRegexFlaggedRule E st rule =
     (if \<not> HasFlag FlagsReg rule then Inr (False, st)
      else (case pullRegexRule E st (cleanupFlags FlagsReg rule) of
              Inl p \<Rightarrow> Inl p
            | Inr st' \<Rightarrow> Inr (True, st')))"

text \<open>The body of the loop over the known extensions, for adding and for removing.\<close>

definition push_extension :: "string \<Rightarrow> InternalRuler \<Rightarrow> string \<Rightarrow> InternalRuler" where
  "push_extension record st extension =
     (let st1 = pushStrictRule st (record @ ''.'' @ extension)
      in if handle_complement st1
         then pushStrictRule st1 (''www.'' @ record @ ''.'' @ extension) else st1)"

definition pull_extension :: "string \<Rightarrow> InternalRuler \<Rightarrow> string \<Rightarrow> InternalRuler" where
  "pull_extension record st extension =
     (let st1 = pullStrictRule st (record @ ''.'' @ extension)
      in if handle_complement st1
         then pullStrictRule st1 (''www.'' @ record @ ''.'' @ extension) else st1)"

definition parseRZDBFlagedRule :: "env \<Rightarrow> InternalRuler \<Rightarrow> string \<Rightarrow> panic + (bool \<times> InternalRuler)" where
  "parseRZDBFlagedRule E st rule =
     (if \<not> HasFlag FlagsRzdb rule then Inr (False, st)
      else
        (let record = cleanupFlags FlagsRzdb rule;
             record = (if handle_complement st \<and> HasPrefix record ''www.''
                       then TrimPrefix record ''www.'' else record);
             record = (if handle_complement st \<and> HasPrefix record ''www.''
                       then TrimPrefix record ''www.'' else record)
         in case getKnownExtensions E st of
              Inl p \<Rightarrow> Inl p
            | Inr (exts, st1) \<Rightarrow> Inr (True, foldl (push_extension record) st1 exts)))"

definition unparseRZDBFlagedRule :: "env \<Rightarrow> InternalRuler \<Rightarrow> string \<Rightarrow> panic + (bool \<times> InternalRuler)" where
  "unparseRZDBFlagedRule E st rule =
     (if \<not> HasFlag FlagsRzdb rule then Inr (False, st)
      else
        (let record = cleanupFlags FlagsRzdb rule;
             record = (if handle_complement st \<and> HasPrefix record ''www.''
                       then TrimPrefix record ''www.'' else record)
         in case getKnownExtensions E st of
              Inl p \<Rightarrow> Inl p
            | Inr (exts, st1) \<Rightarrow> Inr (True, foldl (pull_extension record) st1 exts)))"

definition parsePlainRule :: "env \<Rightarrow> InternalRuler \<Rightarrow> string \<Rightarrow> bool \<times> InternalRuler" where
  "parsePlainRule E st rule =
     (if handle_complement st then
        (if HasPrefix rule ''http://'' \<or> HasPrefix rule ''https://'' then
           (case ExtractNetLocationFromURL E rule of
              None \<Rightarrow> (False, st)
            | Some netloc \<Rightarrow>
                (let st1 =
                   (if HasPrefix netloc ''www.''
                    then pushStrictRule st (ReplaceAll rule netloc (TrimPrefix netloc ''www.''))
                    else pushStrictRule st (ReplaceAll rule netloc (''www.'' @ netloc)))
                 in (True, pushStrictRule st1 rule)))
         else
           (let st1 =
              (if HasPrefix rule ''www.'' then pushStrictRule st (TrimPrefix rule ''www.'')
               else pushStrictRule st (''www.'' @ rule))
            in (True, pushStrictRule st1 rule)))
      else (True, pushStrictRule st rule))"

definition unparsePlainRule :: "env \<Rightarrow> InternalRuler \<Rightarrow> string \<Rightarrow> bool \<times> InternalRuler" where
  "unparsePlainRule E st rule =
     (if handle_complement st then
        (if HasPrefix rule ''http://'' \<or> HasPrefix rule ''https://'' then
           (case ExtractNetLocationFromURL E rule of
              None \<Rightarrow> (False, st)
            | Some netloc \<Rightarrow>
                (let st1 =
                   (if HasPrefix netloc ''www.''
                    then pullStrictRule st (ReplaceAll rule netloc (TrimPrefix netloc ''www.''))
                    else pullStrictRule st (ReplaceAll rule netloc (''www.'' @ netloc)))
                 in (True, pullStrictRule st1 rule)))
         else
           (let st1 =
              (if HasPrefix rule ''www.'' then pullStrictRule st (TrimPrefix rule ''www.'')
               else pullStrictRule st (''www.'' @ rule))
            in (True, pullStrictRule st1 rule)))
      else (True, pullStrictRule st rule))"

text \<open>
  \<open>AddRule\<close> and \<open>RemoveRule\<close> return the disjunction of the four parsers: the first
  one that returns true ends the evaluation, and each one runs on the state its
  predecessors left.
\<close>

definition AddRule :: "env \<Rightarrow> InternalRuler \<Rightarrow> string \<Rightarrow> panic + (bool \<times> InternalRuler)" where
  "AddRule E st rule =
     (let normalizedRule = NormalizeRule E rule in
      if normalizedRule = [] then Inr (False, st)
      else
        (case parseAllFlaggedRule st normalizedRule of
           (True, st1) \<Rightarrow> Inr (True, st1)
         | (False, st1) \<Rightarrow>
             (case parseRegexFlaggedRule E st1 normalizedRule of
                Inl p \<Rightarrow> Inl p
              | Inr (True, st2) \<Rightarrow> Inr (True, st2)
              | Inr (False, st2) \<Rightarrow>
                  (case parseRZDBFlagedRule E st2 normalizedRule of
                     Inl p \<Rightarrow> Inl p
                   | Inr (True, st3) \<Rightarrow> Inr (True, st3)
                   | Inr (False, st3) \<Rightarrow> Inr (parsePlainRule E st3 normalizedRule)))))"

definition RemoveRule :: "env \<Rightarrow> InternalRuler \<Rightarrow> string \<Rightarrow> panic + (bool \<times> InternalRuler)" where
  "RemoveRule E st rule =
     (let normalizedRule = NormalizeRule E rule in
      if normalizedRule = [] then Inr (False, st)
      else
        (case unparseAllFlaggedRule st normalizedRule of
           (True, st1) \<Rightarrow> Inr (True, st1)
         | (False, st1) \<Rightarrow>
             (case unparseRegexFlaggedRule E st1 normalizedRule of
                Inl p \<Rightarrow> Inl p
              | Inr (True, st2) \<Rightarrow> Inr (True, st2)
              | Inr (False, st2) \<Rightarrow>
                  (case unparseRZDBFlagedRule E st2 normalizedRule of
                     Inl p \<Rightarrow> Inl p
                   | Inr (True, st3) \<Rightarrow> Inr (True, st3)
                   | Inr (False, st3) \<Rightarrow> Inr (unparsePlainRule E st3 normalizedRule)))))"

text \<open>
  The body of the loop of \<open>IsWhitelisted\<close> over the candidate subjects: the strict index,
  the present index, the ends index and the compiled expression, in this order.
\<close>

definition subject_matches :: "env \<Rightarrow> InternalRuler \<Rightarrow> string \<Rightarrow> bool" where
  "subject_matches E st sub =
     (let commonKey = commonSearchKeyFromRule sub;
          endKey = endsSearchKeyFromRule sub
      in (case strict st commonKey of None \<Rightarrow> False | Some rules \<Rightarrow> slices_Contains rules sub)
       \<or> (case present st commonKey of None \<Rightarrow> False | Some rules \<Rightarrow> slices_Contains rules sub)
       \<or> (case ends st endKey of None \<Rightarrow> False
          | Some rules \<Rightarrow> list_ex (\<lambda>rule. HasSuffix sub rule) rules)
       \<or> (case compiled_regexp st of None \<Rightarrow> False
          | Some re \<Rightarrow> regexp_MatchString E re sub))"

text \<open>
  \<open>IsWhitelisted\<close> passes the engine's \<open>handle_complement\<close> to \<open>NormalizeSubject\<close> as its
  \<open>complementHandling\<close>.
\<close>

definition IsWhitelisted :: "env \<Rightarrow> InternalRuler \<Rightarrow> string \<Rightarrow> bool" where
  "IsWhitelisted E st subject =
     (let normalizedSubject = NormalizeSubject E subject (handle_complement st) in
      if normalizedSubject = [] then False
      else
        (case ExtractNetLocationFromURL E normalizedSubject of
           None \<Rightarrow> False
         | Some netloc \<Rightarrow>
             (let subjects =
                [netloc] @
                (if HasPrefix normalizedSubject ''http://'' \<or> HasPrefix normalizedSubject ''https://''
                 then [normalizedSubject] else [])
              in list_ex (subject_matches E st) subjects)))"

section \<open>The public engine (pkg/givilsta/ruler.go)\<close>

definition FlagAll :: string where "FlagAll = ''ALL@''"
definition FlagReg :: string where "FlagReg = ''REG@''"
definition FlagRzdb :: string where "FlagRzdb = ''RZDB@''"

definition AddRuleWithFlag :: "env \<Rightarrow> InternalRuler \<Rightarrow> string \<Rightarrow> string \<Rightarrow> panic + (bool \<times> InternalRuler)" where
  "AddRuleWithFlag E st rule flag = AddRule E st (flag @ rule)"

definition RemoveRuleWithFlag :: "env \<Rightarrow> InternalRuler \<Rightarrow> string \<Rightarrow> string \<Rightarrow> panic + (bool \<times> InternalRuler)" where
  "RemoveRuleWithFlag E st rule flag = RemoveRule E st (flag @ rule)"

definition IsSubjectWhitelisted :: "env \<Rightarrow> InternalRuler \<Rightarrow> string \<Rightarrow> bool" where
  "IsSubjectWhitelisted E st subject = IsWhitelisted E st subject"

definition IsSubjectBlacklisted :: "env \<Rightarrow> InternalRuler \<Rightarrow> string \<Rightarrow> bool" where
  "IsSubjectBlacklisted E st subject = (\<not> IsSubjectWhitelisted E st subject)"

definition GetWhitelistedFromLine :: "env \<Rightarrow> InternalRuler \<Rightarrow> string \<Rightarrow> string list" where
  "GetWhitelistedFromLine E st line =
     (let normalized_line = TrimSpace line in
      if normalized_line = [] \<or> HasPrefix normalized_line ''#'' then []
      else
        (let normalized_line =
           (case Index normalized_line ''#'' of None \<Rightarrow> normalized_line
            | Some i \<Rightarrow> take i normalized_line);
             subjects = Compact (Fields normalized_line)
         in filter (IsSubjectWhitelisted E st) subjects))"

definition GetBlacklistedFromLine :: "env \<Rightarrow> InternalRuler \<Rightarrow> string \<Rightarrow> string list" where
  "GetBlacklistedFromLine E st line =
     (let normalized_line = TrimSpace line in
      if normalized_line = [] \<or> HasPrefix normalized_line ''#'' then []
      else
        (let normalized_line =
           (case Index normalized_line ''#'' of None \<Rightarrow> normalized_line
            | Some i \<Rightarrow> take i normalized_line);
             subjects = Compact (Fields normalized_line)
         in filter (IsSubjectBlacklisted E st) subjects))"


section \<open>An executable model of the libraries\<close>

text \<open>
  To run the engine on a concrete line, the parameters are instantiated by functions
  that compute what the libraries return on host names and simple URLs. They follow
  the documented behaviour of the libraries on the inputs evaluated in this theory;
  where they are narrower than the library, the text says so.
\<close>

subsection \<open>idna.ToASCII: Punycode (RFC 3492)\<close>

text \<open>The runes of a string, as a \<^verbatim>\<open>range\<close> loop yields them (U+FFFD for a malformed byte).\<close>

definition decode_rune :: "string \<Rightarrow> int" where
  "decode_rune s =
     (let b = map (of_char :: char \<Rightarrow> int) s in
      case rune_width s of
        Suc 0 \<Rightarrow> (if b ! 0 < 0x80 then b ! 0 else 0xFFFD)
      | Suc (Suc 0) \<Rightarrow> (b ! 0 mod 32) * 64 + b ! 1 mod 64
      | Suc (Suc (Suc 0)) \<Rightarrow> (b ! 0 mod 16) * 4096 + (b ! 1 mod 64) * 64 + b ! 2 mod 64
      | _ \<Rightarrow> (b ! 0 mod 8) * 262144 + (b ! 1 mod 64) * 4096 + (b ! 2 mod 64) * 64 + b ! 3 mod 64)"

function runes :: "string \<Rightarrow> int list" where
  "runes s = (if s = [] then [] else decode_rune s # runes (drop (rune_width s) s))"
  by pat_completeness auto
termination
proof (relation "measure length")
  show "wf (measure length)" by simp
next
  fix s :: string
  assume "s \<noteq> []"
  then show "(drop (rune_width s) s, s) \<in> measure length"
    using rune_width_pos [of s] by simp
qed

declare runes.simps [simp del]

definition encodeDigit :: "int \<Rightarrow> char" where
  "encodeDigit d = (if d < 26 then char_of (d + 97) else char_of (d - 26 + 48))"

function adapt_loop :: "int \<Rightarrow> int \<Rightarrow> int" where
  "adapt_loop delta k =
     (if delta > 455 then adapt_loop (delta div 35) (k + 36)
      else k + (36 * delta) div (delta + 38))"
  by pat_completeness auto
termination
  by (relation "measure (\<lambda>(delta, k). nat delta)") auto

declare adapt_loop.simps [simp del]

definition adapt :: "int \<Rightarrow> int \<Rightarrow> bool \<Rightarrow> int" where
  "adapt delta numPoints firstTime =
     (let d = (if firstTime then delta div 700 else delta div 2)
      in adapt_loop (d + d div numPoints) 0)"

definition threshold :: "int \<Rightarrow> int \<Rightarrow> int" where
  "threshold k bias = (if k \<le> bias then 1 else if k \<ge> bias + 26 then 26 else k - bias)"

lemma threshold_bounds: "1 \<le> threshold k bias \<and> threshold k bias \<le> 26"
  by (auto simp: threshold_def)

text \<open>The digits of a delta as a generalised variable-length integer.\<close>

function encode_delta :: "int \<Rightarrow> int \<Rightarrow> int \<Rightarrow> string" where
  "encode_delta bias k q =
     (let t = threshold k bias in
      if q < t then [encodeDigit q]
      else encodeDigit (t + (q - t) mod (36 - t)) # encode_delta bias (k + 36) ((q - t) div (36 - t)))"
  by pat_completeness auto
termination
proof (relation "measure (\<lambda>(bias, k, q). nat q)")
  show "wf (measure (\<lambda>(bias, k, q). nat q))" by simp
next
  fix bias k q t :: int
  assume t: "t = threshold k bias" and q: "\<not> q < t"
  have t1: "1 \<le> t" and t26: "t \<le> 26" using t threshold_bounds [of k bias] by simp_all
  have "(q - t) div (36 - t) \<le> q - t"
  proof (cases "q = t")
    case True
    then show ?thesis by simp
  next
    case False
    with q have "0 < q - t" by simp
    then show ?thesis by (rule int_div_le_self)
  qed
  then have "(q - t) div (36 - t) < q" and "0 < q" using q t1 by linarith+
  then show "((bias, k + 36, (q - t) div (36 - t)), (bias, k, q)) \<in> measure (\<lambda>(bias, k, q). nat q)"
    by simp
qed

declare encode_delta.simps [simp del]

text \<open>
  The state of the encoder: the code point \<open>n\<close>, \<open>delta\<close>, \<open>bias\<close>, the number \<open>h\<close> of
  code points handled, and the output. \<open>puny_rune\<close> is the body of the inner loop
  over the runes, \<open>puny_round\<close> one round of the outer loop for the next code point \<open>m\<close>;
  the rounds run over the code points outside ASCII in increasing order.
  \<open>None\<close> is the overflow of the 32-bit \<open>delta\<close>.
\<close>

record puny =
  pn :: int
  pdelta :: int
  pbias :: int
  ph :: int
  pout :: string

definition puny_rune :: "int \<Rightarrow> puny option \<Rightarrow> int \<Rightarrow> puny option" where
  "puny_rune b so r =
     (case so of None \<Rightarrow> None
      | Some s \<Rightarrow>
          if r < pn s then
            (if pdelta s + 1 > 0x7FFFFFFF then None else Some (s\<lparr>pdelta := pdelta s + 1\<rparr>))
          else if r > pn s then Some s
          else Some (s\<lparr>pout := pout s @ encode_delta (pbias s) 36 (pdelta s),
                       pbias := adapt (pdelta s) (ph s + 1) (ph s = b),
                       pdelta := 0, ph := ph s + 1\<rparr>))"

definition puny_round :: "int list \<Rightarrow> int \<Rightarrow> puny option \<Rightarrow> int \<Rightarrow> puny option" where
  "puny_round rs b so m =
     (case so of None \<Rightarrow> None
      | Some s \<Rightarrow>
          (let d = pdelta s + (m - pn s) * (ph s + 1) in
           if d > 0x7FFFFFFF then None
           else (case foldl (puny_rune b) (Some (s\<lparr>pdelta := d, pn := m\<rparr>)) rs of
                   None \<Rightarrow> None
                 | Some s' \<Rightarrow> Some (s'\<lparr>pdelta := pdelta s' + 1, pn := pn s' + 1\<rparr>))))"

definition punycode_encode :: "string \<Rightarrow> string option" where
  "punycode_encode label =
     (let rs = runes label;
          basic = filter (\<lambda>r. r < 0x80) rs;
          b = int (length basic);
          out0 = map char_of basic @ (if b > 0 then ''-'' else [])
      in map_option pout
           (foldl (puny_round rs b)
              (Some \<lparr>pn = 128, pdelta = 0, pbias = 72, ph = b, pout = out0\<rparr>)
              (sort (remdups (filter (\<lambda>r. r \<ge> 0x80) rs)))))"

definition ascii :: "string \<Rightarrow> bool" where
  "ascii s = list_all (\<lambda>c. (of_char c :: int) < 0x80) s"

text \<open>
  \<^verbatim>\<open>idna.ToASCII\<close> works label by label: a label outside ASCII is replaced by \<^verbatim>\<open>xn--\<close> and
  its Punycode, an ASCII label is kept. (The library also decodes a label that starts
  with \<^verbatim>\<open>xn--\<close> and encodes it again; no input evaluated here has such a label.)
\<close>

fun toASCII_labels :: "string list \<Rightarrow> string list option" where
  "toASCII_labels [] = Some []"
| "toASCII_labels (l # ls) =
     (case (if ascii l then Some l else map_option ((@) ''xn--'') (punycode_encode l)) of
        None \<Rightarrow> None
      | Some a \<Rightarrow> map_option ((#) a) (toASCII_labels ls))"

definition go_ToASCII :: "string \<Rightarrow> string option" where
  "go_ToASCII s = map_option (\<lambda>ls. Join ls ''.'') (toASCII_labels (Split s CHR ''.''))"


subsection \<open>url.Parse\<close>

text \<open>
  \<^verbatim>\<open>url.Parse\<close>, reduced to the fields \<^verbatim>\<open>Host\<close> and \<^verbatim>\<open>Path\<close>: the fragment and the query are
  cut off, the scheme is split off, an authority after \<^verbatim>\<open>//\<close> gives the host, and the
  rest is the path. The errors are those of the library: a control character, a colon
  in the first segment of a relative path, a missing scheme before a colon, user
  information, a port or a host with a character that is not allowed, and a malformed
  percent escape. (A host in brackets, an IP literal, is outside this model, which
  returns the error for it.)
\<close>

definition is_letter :: "char \<Rightarrow> bool" where
  "is_letter c = (in_range c 0x41 0x5A \<or> in_range c 0x61 0x7A)"

definition is_digit :: "char \<Rightarrow> bool" where
  "is_digit c = in_range c 0x30 0x39"

definition ishex :: "char \<Rightarrow> bool" where
  "ishex c = (is_digit c \<or> in_range c 0x41 0x46 \<or> in_range c 0x61 0x66)"

definition unhex :: "char \<Rightarrow> int" where
  "unhex c =
     (if is_digit c then of_char c - 0x30
      else if in_range c 0x61 0x66 then of_char c - 0x61 + 10
      else of_char c - 0x41 + 10)"

definition stringContainsCTLByte :: "string \<Rightarrow> bool" where
  "stringContainsCTLByte s = list_ex (\<lambda>c. (of_char c :: int) < 0x20 \<or> (of_char c :: int) = 0x7F) s"

fun getScheme_from :: "nat \<Rightarrow> string \<Rightarrow> string \<Rightarrow> (string \<times> string) option" where
  "getScheme_from i [] rawURL = Some ([], rawURL)"
| "getScheme_from i (c # s) rawURL =
     (if is_letter c then getScheme_from (Suc i) s rawURL
      else if is_digit c \<or> c = CHR ''+'' \<or> c = CHR ''-'' \<or> c = CHR ''.'' then
        (if i = 0 then Some ([], rawURL) else getScheme_from (Suc i) s rawURL)
      else if c = CHR '':'' then
        (if i = 0 then None else Some (take i rawURL, drop (Suc i) rawURL))
      else Some ([], rawURL))"

definition getScheme :: "string \<Rightarrow> (string \<times> string) option" where
  "getScheme rawURL = getScheme_from 0 rawURL rawURL"

definition host_byte_ok :: "char \<Rightarrow> bool" where
  "host_byte_ok c =
     ((of_char c :: int) \<ge> 0x80 \<or> is_letter c \<or> is_digit c
      \<or> c \<in> set ''!$&()*+,;=:[]<>-_.~'' \<or> c = CHR 0x27 \<or> c = CHR 0x22)"

text \<open>\<open>unescape\<close> in the mode of a host (\<open>True\<close>) and in that of a path or fragment.\<close>

fun unescape :: "bool \<Rightarrow> string \<Rightarrow> string option" where
  "unescape h [] = Some []"
| "unescape h (c # s) =
     (if c = CHR ''%'' then
        (case s of
           a # b # r \<Rightarrow>
             (if ishex a \<and> ishex b \<and> (h \<longrightarrow> unhex a \<ge> 8 \<or> (a = CHR ''2'' \<and> b = CHR ''5''))
              then map_option ((#) (char_of (16 * unhex a + unhex b))) (unescape h r)
              else None)
         | _ \<Rightarrow> None)
      else if h \<and> \<not> host_byte_ok c then None
      else map_option ((#) c) (unescape h s))"

definition LastIndex :: "string \<Rightarrow> char \<Rightarrow> nat option" where
  "LastIndex s c =
     (case Index (rev s) [c] of None \<Rightarrow> None | Some j \<Rightarrow> Some (length s - 1 - j))"

definition validOptionalPort :: "string \<Rightarrow> bool" where
  "validOptionalPort port =
     (case port of [] \<Rightarrow> True
      | c # ds \<Rightarrow> c = CHR '':'' \<and> list_all is_digit ds)"

definition parseHost :: "string \<Rightarrow> string option" where
  "parseHost host =
     (if HasPrefix host ''['' then None
      else if (case LastIndex host CHR '':'' of None \<Rightarrow> False
               | Some i \<Rightarrow> \<not> validOptionalPort (drop i host)) then None
      else unescape True host)"

definition validUserinfo :: "string \<Rightarrow> bool" where
  "validUserinfo s =
     list_all (\<lambda>c. is_letter c \<or> is_digit c \<or> c \<in> set ''-._:~!$&()*+,;=%@'' \<or> c = CHR 0x27) s"

definition parseAuthority :: "string \<Rightarrow> string option" where
  "parseAuthority authority =
     (case LastIndex authority CHR ''@'' of
        None \<Rightarrow> parseHost authority
      | Some i \<Rightarrow>
          (case parseHost (drop (Suc i) authority) of
             None \<Rightarrow> None
           | Some host \<Rightarrow>
               (let userinfo = take i authority in
                if \<not> validUserinfo userinfo then None
                else if list_ex (\<lambda>part. unescape False part = None) (Split userinfo CHR '':'')
                  then None
                else Some host)))"

definition cut_at :: "string \<Rightarrow> string \<Rightarrow> string \<times> string" where
  "cut_at s sep =
     (case Index s sep of None \<Rightarrow> (s, [])
      | Some i \<Rightarrow> (take i s, drop (i + length sep) s))"

definition parse_url :: "string \<Rightarrow> URL option" where
  "parse_url rawURL =
     (if stringContainsCTLByte rawURL then None
      else if rawURL = ''*'' then Some \<lparr>Host = [], Path = ''*''\<rparr>
      else case getScheme rawURL of
        None \<Rightarrow> None
      | Some (scheme, rest0) \<Rightarrow>
          (let rest = fst (cut_at rest0 ''?'') in
           if \<not> HasPrefix rest ''/'' \<and> scheme \<noteq> [] then Some \<lparr>Host = [], Path = []\<rparr>
           else if \<not> HasPrefix rest ''/'' \<and> Contains (fst (cut_at rest ''/'')) '':'' then None
           else if (scheme \<noteq> [] \<or> \<not> HasPrefix rest ''///'') \<and> HasPrefix rest ''//'' then
             (let authority0 = drop 2 rest;
                  (authority, rest1) =
                    (case Index authority0 ''/'' of None \<Rightarrow> (authority0, [])
                     | Some i \<Rightarrow> (take i authority0, drop i authority0))
              in case parseAuthority authority of
                   None \<Rightarrow> None
                 | Some host \<Rightarrow>
                     (case unescape False rest1 of None \<Rightarrow> None
                      | Some path \<Rightarrow> Some \<lparr>Host = host, Path = path\<rparr>))
           else (case unescape False rest of None \<Rightarrow> None
                 | Some path \<Rightarrow> Some \<lparr>Host = [], Path = path\<rparr>)))"

definition go_url_Parse :: "string \<Rightarrow> URL option" where
  "go_url_Parse rawURL =
     (let (u, frag) = cut_at rawURL ''#'' in
      case parse_url u of
        None \<Rightarrow> None
      | Some url \<Rightarrow> (if unescape False frag = None then None else Some url))"

subsection \<open>regexp\<close>

text \<open>
  Regular expressions built from literal bytes, \<^verbatim>\<open>.\<close> (any byte but a line feed),
  a star after a literal or a dot, and \<^verbatim>\<open>|\<close> between alternatives. \<^verbatim>\<open>MatchString\<close> looks
  for a match anywhere in the text. (An expression with another operator of the
  library's syntax is outside this model, which reports that it does not compile.)
\<close>

datatype atom = Lit char | AnyByte

fun parse_alternative :: "string \<Rightarrow> (atom \<times> bool) list option" where
  "parse_alternative [] = Some []"
| "parse_alternative (c # s) =
     (if c = CHR 0x5C \<or> c \<in> set ''()[]{}+?^$*|'' then None
      else
        (let a = (if c = CHR ''.'' then AnyByte else Lit c) in
         case s of
           d # r \<Rightarrow>
             (if d = CHR ''*'' then
                (if HasPrefix r ''*'' then None
                 else map_option ((#) (a, True)) (parse_alternative r))
              else map_option ((#) (a, False)) (parse_alternative s))
         | [] \<Rightarrow> Some [(a, False)]))"

definition atom_matches :: "atom \<Rightarrow> char \<Rightarrow> bool" where
  "atom_matches a c = (case a of Lit l \<Rightarrow> c = l | AnyByte \<Rightarrow> c \<noteq> CHR 0x0A)"

fun match_here :: "(atom \<times> bool) list \<Rightarrow> string \<Rightarrow> bool" where
  "match_here [] text = True"
| "match_here ((a, False) # items) [] = False"
| "match_here ((a, False) # items) (c # text) = (atom_matches a c \<and> match_here items text)"
| "match_here ((a, True) # items) [] = match_here items []"
| "match_here ((a, True) # items) (c # text) =
     (match_here items (c # text) \<or> (atom_matches a c \<and> match_here ((a, True) # items) text))"

fun match_anywhere :: "(atom \<times> bool) list \<Rightarrow> string \<Rightarrow> bool" where
  "match_anywhere items [] = match_here items []"
| "match_anywhere items (c # text) = (match_here items (c # text) \<or> match_anywhere items text)"

definition go_Compile :: "string \<Rightarrow> bool" where
  "go_Compile str = list_all (\<lambda>alt. parse_alternative alt \<noteq> None) (Split str CHR ''|'')"

definition go_MatchString :: "string \<Rightarrow> string \<Rightarrow> bool" where
  "go_MatchString str text =
     list_ex (\<lambda>alt. case parse_alternative alt of None \<Rightarrow> False
                     | Some items \<Rightarrow> match_anywhere items text)
             (Split str CHR ''|'')"

subsection \<open>The instance\<close>

definition go_env :: "string list option \<Rightarrow> string list option \<Rightarrow> env" where
  "go_env iana psl =
     \<lparr>idna_ToASCII = go_ToASCII, url_Parse = go_url_Parse, regexp_Compile = go_Compile,
      regexp_MatchString = go_MatchString, NewIANAExtensions = iana, NewPSLExtensions = psl\<rparr>"


section \<open>The kind of a rule\<close>

text \<open>
  \<open>AddRule\<close> and \<open>RemoveRule\<close> try the flag families in the order ALL, REG, RZDB and fall
  back to the plain rule. \<open>rule_kind\<close> names the branch that a normalized rule takes.
\<close>

datatype kind = KNone | KAll | KReg | KRzdb

definition rule_kind :: "string \<Rightarrow> kind" where
  "rule_kind n =
     (if HasFlag FlagsAll n then KAll
      else if HasFlag FlagsReg n then KReg
      else if HasFlag FlagsRzdb n then KRzdb
      else KNone)"

definition is_http :: "string \<Rightarrow> bool" where
  "is_http s = (HasPrefix s ''http://'' \<or> HasPrefix s ''https://'')"

text \<open>
  What a query reads of the engine: whether a candidate is filed in the strict index
  (or the present index) under its own key, whether a rule filed in the ends index
  under the candidate's key is a suffix of it, and whether the compiled expression
  matches it.
\<close>

definition strict_mem :: "InternalRuler \<Rightarrow> string \<Rightarrow> bool" where
  "strict_mem st x = (x \<in> set (bucket (strict st) (commonSearchKeyFromRule x)))"

definition present_mem :: "InternalRuler \<Rightarrow> string \<Rightarrow> bool" where
  "present_mem st x = (x \<in> set (bucket (present st) (commonSearchKeyFromRule x)))"

definition ends_hit :: "InternalRuler \<Rightarrow> string \<Rightarrow> bool" where
  "ends_hit st x = (\<exists>rule \<in> set (bucket (ends st) (endsSearchKeyFromRule x)). suffix rule x)"

definition regex_hit :: "env \<Rightarrow> InternalRuler \<Rightarrow> string \<Rightarrow> bool" where
  "regex_hit E st x =
     (case compiled_regexp st of None \<Rightarrow> False | Some re \<Rightarrow> regexp_MatchString E re x)"

text \<open>
  The names outside ASCII that the properties below use, as their UTF-8 bytes: \<open>gueter\<close>
  is \<^verbatim>\<open>g\<close>, u with diaeresis, \<^verbatim>\<open>ter\<close>; \<open>voeklingen\<close> is \<^verbatim>\<open>v\<close>, o with diaeresis,
  \<^verbatim>\<open>klingen\<close>; \<open>saarbruecken\<close> is \<^verbatim>\<open>saarbr\<close>, u with diaeresis, \<^verbatim>\<open>cken\<close>.
\<close>

definition gueter :: string where
  "gueter = ''g'' @ [CHR 0xC3, CHR 0xBC] @ ''ter''"

definition voeklingen :: string where
  "voeklingen = ''v'' @ [CHR 0xC3, CHR 0xB6] @ ''klingen''"

definition saarbruecken :: string where
  "saarbruecken = ''saarbr'' @ [CHR 0xC3, CHR 0xBC] @ ''cken''"

section \<open>The subjects of a line\<close>

text \<open>
  The token list of a line, as the line-oriented queries are described: the line is
  trimmed, the comment (the text from the first \<^verbatim>\<open>#\<close> on) is cut off, the rest is split
  at white space, and equal neighbours collapse.
\<close>

definition line_tokens :: "string \<Rightarrow> string list" where
  "line_tokens line = Compact (Fields (fst (cut_at (TrimSpace line) ''#'')))"

lemma Fields_Nil: "Fields [] = []"
  by (simp add: Fields_def fields_from.simps)

lemma cut_at_hash_prefix: "HasPrefix s ''#'' \<Longrightarrow> fst (cut_at s ''#'') = []"
  by (cases s) (auto simp: cut_at_def HasPrefix_def)

lemma line_tokens_blank:
  "TrimSpace line = [] \<or> HasPrefix (TrimSpace line) ''#'' \<Longrightarrow> line_tokens line = []"
proof (cases "TrimSpace line = []")
  case True
  then show ?thesis by (simp add: line_tokens_def cut_at_def Fields_Nil)
next
  case False
  assume "TrimSpace line = [] \<or> HasPrefix (TrimSpace line) ''#''"
  with False have "fst (cut_at (TrimSpace line) ''#'') = []"
    by (simp add: cut_at_hash_prefix)
  then show ?thesis by (simp add: line_tokens_def Fields_Nil)
qed

lemma GetWhitelistedFromLine_tokens:
  "GetWhitelistedFromLine E st line = filter (IsWhitelisted E st) (line_tokens line)"
proof (cases "TrimSpace line = [] \<or> HasPrefix (TrimSpace line) ''#''")
  case True
  then show ?thesis
    using line_tokens_blank [of line] by (auto simp: GetWhitelistedFromLine_def)
next
  case False
  then show ?thesis
    by (auto simp: GetWhitelistedFromLine_def line_tokens_def cut_at_def Let_def
          IsSubjectWhitelisted_def [abs_def] split: option.splits)
qed

lemma GetBlacklistedFromLine_tokens:
  "GetBlacklistedFromLine E st line = filter (\<lambda>t. \<not> IsWhitelisted E st t) (line_tokens line)"
proof (cases "TrimSpace line = [] \<or> HasPrefix (TrimSpace line) ''#''")
  case True
  then show ?thesis
    using line_tokens_blank [of line] by (auto simp: GetBlacklistedFromLine_def)
next
  case False
  then show ?thesis
    by (auto simp: GetBlacklistedFromLine_def line_tokens_def cut_at_def Let_def
          IsSubjectBlacklisted_def [abs_def] IsSubjectWhitelisted_def [abs_def]
          split: option.splits)
qed

text \<open>
  Claim C10. For every engine state and every line, each token of the line is in
  exactly one of \<open>GetWhitelistedFromLine\<close> and \<open>GetBlacklistedFromLine\<close>; the two lists
  are the whitelisted and the other tokens in the order of the line; a blank line and
  a line that is only a comment give two empty lists.
\<close>

theorem line_tokens_partition:
  "(\<forall>t \<in> set (line_tokens line).
      (t \<in> set (GetWhitelistedFromLine E st line)) \<noteq> (t \<in> set (GetBlacklistedFromLine E st line)))
   \<and> GetWhitelistedFromLine E st line = filter (IsSubjectWhitelisted E st) (line_tokens line)
   \<and> GetBlacklistedFromLine E st line = filter (IsSubjectBlacklisted E st) (line_tokens line)
   \<and> subseq (GetWhitelistedFromLine E st line) (line_tokens line)
   \<and> subseq (GetBlacklistedFromLine E st line) (line_tokens line)
   \<and> (TrimSpace line = [] \<or> HasPrefix (TrimSpace line) ''#'' \<longrightarrow>
        GetWhitelistedFromLine E st line = [] \<and> GetBlacklistedFromLine E st line = [])"
proof -
  have blank: "TrimSpace line = [] \<or> HasPrefix (TrimSpace line) ''#'' \<longrightarrow>
        GetWhitelistedFromLine E st line = [] \<and> GetBlacklistedFromLine E st line = []"
    by (auto simp: GetWhitelistedFromLine_def GetBlacklistedFromLine_def)
  show ?thesis
    using blank
    by (auto simp: GetWhitelistedFromLine_tokens GetBlacklistedFromLine_tokens
          IsSubjectBlacklisted_def [abs_def] IsSubjectWhitelisted_def [abs_def])
qed


theorem line_tokens_partition_witness:
  "GetWhitelistedFromLine (go_env None None) (pushStrictRule (NewInternalRuler False) ''a.com'')
     ''0.0.0.0 a.com a.com  b.org # note'' = [''a.com'']
   \<and> GetBlacklistedFromLine (go_env None None) (pushStrictRule (NewInternalRuler False) ''a.com'')
     ''0.0.0.0 a.com a.com  b.org # note'' = [''0.0.0.0'', ''b.org'']
   \<and> GetWhitelistedFromLine (go_env None None) (pushStrictRule (NewInternalRuler False) ''a.com'')
     '' # note'' = []"
proof -
  let ?E = "go_env None None"
  let ?st = "pushStrictRule (NewInternalRuler False) ''a.com''"
  let ?line = "''0.0.0.0 a.com a.com  b.org # note''"
  have tokens: "line_tokens ?line = [''0.0.0.0'', ''a.com'', ''b.org'']"
    by code_simp
  have w1: "\<not> IsSubjectWhitelisted ?E ?st ''0.0.0.0''"
    by code_simp
  have w2: "IsSubjectWhitelisted ?E ?st ''a.com''"
    by code_simp
  have w3: "\<not> IsSubjectWhitelisted ?E ?st ''b.org''"
    by code_simp
  have blank: "HasPrefix (TrimSpace '' # note'') ''#''"
    by code_simp
  have a: "GetWhitelistedFromLine ?E ?st ?line = filter (IsSubjectWhitelisted ?E ?st) (line_tokens ?line)"
    and b: "GetBlacklistedFromLine ?E ?st ?line = filter (IsSubjectBlacklisted ?E ?st) (line_tokens ?line)"
    using line_tokens_partition [of ?line ?E ?st] by blast+
  have c: "GetWhitelistedFromLine ?E ?st '' # note'' = []"
    using line_tokens_partition [of "'' # note''" ?E ?st] blank by blast
  show ?thesis
    unfolding a b tokens using w1 w2 w3 c by (simp add: IsSubjectBlacklisted_def)
qed


section \<open>What AddRule and RemoveRule return\<close>

lemma Index_hash_pos: "\<not> HasPrefix s ''#'' \<Longrightarrow> Index s ''#'' = Some i \<Longrightarrow> 0 < i"
  by (cases s) (auto simp: HasPrefix_def split: if_splits)

lemma NormalizeRule_blank:
  "TrimSpace r = [] \<or> HasPrefix (TrimSpace r) ''#'' \<Longrightarrow> NormalizeRule E r = []"
  by (auto simp: NormalizeRule_def)

lemma parseAllFlaggedRule_fst: "fst (parseAllFlaggedRule st n) = HasFlag FlagsAll n"
  by (simp add: parseAllFlaggedRule_def Let_def)

lemma parseAllFlaggedRule_no: "\<not> HasFlag FlagsAll n \<Longrightarrow> parseAllFlaggedRule st n = (False, st)"
  by (simp add: parseAllFlaggedRule_def)

lemma unparseAllFlaggedRule_fst: "fst (unparseAllFlaggedRule st n) = HasFlag FlagsAll n"
  by (simp add: unparseAllFlaggedRule_def Let_def)

lemma unparseAllFlaggedRule_no: "\<not> HasFlag FlagsAll n \<Longrightarrow> unparseAllFlaggedRule st n = (False, st)"
  by (simp add: unparseAllFlaggedRule_def)

lemma AddRule_empty: "NormalizeRule E r = [] \<Longrightarrow> AddRule E st r = Inr (False, st)"
  by (simp add: AddRule_def)

lemma AddRule_KAll:
  assumes "NormalizeRule E r = n" "n \<noteq> []" "rule_kind n = KAll"
  shows "AddRule E st r = Inr (True, snd (parseAllFlaggedRule st n))"
proof -
  have "HasFlag FlagsAll n" using assms(3) by (auto simp: rule_kind_def split: if_splits)
  then have "fst (parseAllFlaggedRule st n)" by (simp add: parseAllFlaggedRule_fst)
  then show ?thesis using assms(1,2)
    by (cases "parseAllFlaggedRule st n") (auto simp: AddRule_def)
qed

lemma AddRule_KReg:
  assumes "NormalizeRule E r = n" "n \<noteq> []" "rule_kind n = KReg"
  shows "AddRule E st r =
           (case pushRegexRule E st (cleanupFlags FlagsReg n) of
              Inl p \<Rightarrow> Inl p | Inr st' \<Rightarrow> Inr (True, st'))"
proof -
  have "\<not> HasFlag FlagsAll n" "HasFlag FlagsReg n"
    using assms(3) by (auto simp: rule_kind_def split: if_splits)
  then show ?thesis using assms(1,2)
    by (auto simp: AddRule_def parseAllFlaggedRule_no parseRegexFlaggedRule_def split: sum.splits)
qed

lemma AddRule_KRzdb:
  assumes "NormalizeRule E r = n" "n \<noteq> []" "rule_kind n = KRzdb"
  shows "AddRule E st r = parseRZDBFlagedRule E st n"
proof -
  have f: "\<not> HasFlag FlagsAll n" "\<not> HasFlag FlagsReg n" "HasFlag FlagsRzdb n"
    using assms(3) by (auto simp: rule_kind_def split: if_splits)
  show ?thesis using assms(1,2) f
    by (auto simp: AddRule_def parseAllFlaggedRule_no parseRegexFlaggedRule_def
          parseRZDBFlagedRule_def Let_def split: sum.splits)
qed

lemma AddRule_KNone:
  assumes "NormalizeRule E r = n" "n \<noteq> []" "rule_kind n = KNone"
  shows "AddRule E st r = Inr (parsePlainRule E st n)"
proof -
  have "\<not> HasFlag FlagsAll n" "\<not> HasFlag FlagsReg n" "\<not> HasFlag FlagsRzdb n"
    using assms(3) by (auto simp: rule_kind_def split: if_splits)
  then show ?thesis using assms(1,2)
    by (simp add: AddRule_def parseAllFlaggedRule_no parseRegexFlaggedRule_def
          parseRZDBFlagedRule_def)
qed

lemma RemoveRule_empty: "NormalizeRule E r = [] \<Longrightarrow> RemoveRule E st r = Inr (False, st)"
  by (simp add: RemoveRule_def)

lemma RemoveRule_KAll:
  assumes "NormalizeRule E r = n" "n \<noteq> []" "rule_kind n = KAll"
  shows "RemoveRule E st r = Inr (True, snd (unparseAllFlaggedRule st n))"
proof -
  have "HasFlag FlagsAll n" using assms(3) by (auto simp: rule_kind_def split: if_splits)
  then have "fst (unparseAllFlaggedRule st n)" by (simp add: unparseAllFlaggedRule_fst)
  then show ?thesis using assms(1,2)
    by (cases "unparseAllFlaggedRule st n") (auto simp: RemoveRule_def)
qed

lemma RemoveRule_KReg:
  assumes "NormalizeRule E r = n" "n \<noteq> []" "rule_kind n = KReg"
  shows "RemoveRule E st r =
           (case pullRegexRule E st (cleanupFlags FlagsReg n) of
              Inl p \<Rightarrow> Inl p | Inr st' \<Rightarrow> Inr (True, st'))"
proof -
  have "\<not> HasFlag FlagsAll n" "HasFlag FlagsReg n"
    using assms(3) by (auto simp: rule_kind_def split: if_splits)
  then show ?thesis using assms(1,2)
    by (auto simp: RemoveRule_def unparseAllFlaggedRule_no unparseRegexFlaggedRule_def
          split: sum.splits)
qed

lemma RemoveRule_KRzdb:
  assumes "NormalizeRule E r = n" "n \<noteq> []" "rule_kind n = KRzdb"
  shows "RemoveRule E st r = unparseRZDBFlagedRule E st n"
proof -
  have f: "\<not> HasFlag FlagsAll n" "\<not> HasFlag FlagsReg n" "HasFlag FlagsRzdb n"
    using assms(3) by (auto simp: rule_kind_def split: if_splits)
  then show ?thesis using assms(1,2)
    by (auto simp: RemoveRule_def unparseAllFlaggedRule_no unparseRegexFlaggedRule_def
          unparseRZDBFlagedRule_def Let_def split: sum.splits)
qed

lemma RemoveRule_KNone:
  assumes "NormalizeRule E r = n" "n \<noteq> []" "rule_kind n = KNone"
  shows "RemoveRule E st r = Inr (unparsePlainRule E st n)"
proof -
  have "\<not> HasFlag FlagsAll n" "\<not> HasFlag FlagsReg n" "\<not> HasFlag FlagsRzdb n"
    using assms(3) by (auto simp: rule_kind_def split: if_splits)
  then show ?thesis using assms(1,2)
    by (simp add: RemoveRule_def unparseAllFlaggedRule_no unparseRegexFlaggedRule_def
          unparseRZDBFlagedRule_def)
qed


text \<open>The expression that \<open>pushRegexRule\<close> hands to \<^verbatim>\<open>regexp.MustCompile\<close>.\<close>

definition next_pattern :: "InternalRuler \<Rightarrow> string \<Rightarrow> string" where
  "next_pattern st rule =
     (case compiled_regexp st of
        None \<Rightarrow> (if regex st = [] then rule else regex st @ ''|'' @ rule)
      | Some old \<Rightarrow> old @ ''|'' @ rule)"

lemma pushRegexRule_result:
  "pushRegexRule E st rule =
     (if regexp_Compile E (next_pattern st rule)
      then Inr (st\<lparr>regex := (if regex st = [] then rule else regex st @ ''|'' @ rule),
                   compiled_regexp := Some (next_pattern st rule)\<rparr>)
      else Inl (CompilePanic (next_pattern st rule)))"
  by (auto simp: pushRegexRule_def next_pattern_def MustCompile_def Let_def split: option.splits)

lemma getKnownExtensions_result:
  "getKnownExtensions E st =
     (if extensions st \<noteq> [] then Inr (extensions st, st)
      else case (NewIANAExtensions E, NewPSLExtensions E) of
             (Some iana, Some psl) \<Rightarrow> Inr (iana @ psl, st\<lparr>extensions := iana @ psl\<rparr>)
           | _ \<Rightarrow> Inl FetchPanic)"
  by (auto simp: getKnownExtensions_def split: option.splits)

lemma parsePlainRule_result:
  "parsePlainRule E st n =
     (if handle_complement st \<and> is_http n \<and> ExtractNetLocationFromURL E n = None
      then (False, st) else (True, snd (parsePlainRule E st n)))"
  by (auto simp: parsePlainRule_def is_http_def Let_def split: option.splits)

text \<open>
  Claim C5, amended. \<open>AddRule\<close> returns false, and leaves the engine as it is, for a
  line that is empty after trimming or starts with \<^verbatim>\<open>#\<close>. When the normalized rule is
  not empty, \<open>AddRule\<close> returns true, with three exceptions: a REG rule whose expression
  does not compile panics, an RZDB rule panics when the catalog is empty and a feed
  cannot be fetched, and under complement handling a plain rule that is an http(s)
  URL whose net location cannot be extracted returns false.
\<close>

theorem AddRule_result:
  "(TrimSpace r = [] \<or> HasPrefix (TrimSpace r) ''#'' \<longrightarrow> AddRule E st r = Inr (False, st))
   \<and> (NormalizeRule E r \<noteq> [] \<longrightarrow>
        (case rule_kind (NormalizeRule E r) of
           KAll \<Rightarrow> \<exists>st'. AddRule E st r = Inr (True, st')
         | KReg \<Rightarrow>
             if regexp_Compile E (next_pattern st (cleanupFlags FlagsReg (NormalizeRule E r)))
             then \<exists>st'. AddRule E st r = Inr (True, st')
             else AddRule E st r =
                    Inl (CompilePanic (next_pattern st (cleanupFlags FlagsReg (NormalizeRule E r))))
         | KRzdb \<Rightarrow>
             if extensions st \<noteq> [] \<or> (NewIANAExtensions E \<noteq> None \<and> NewPSLExtensions E \<noteq> None)
             then \<exists>st'. AddRule E st r = Inr (True, st')
             else AddRule E st r = Inl FetchPanic
         | KNone \<Rightarrow>
             if handle_complement st \<and> is_http (NormalizeRule E r)
                \<and> ExtractNetLocationFromURL E (NormalizeRule E r) = None
             then AddRule E st r = Inr (False, st)
             else \<exists>st'. AddRule E st r = Inr (True, st')))"
proof (intro conjI impI)
  assume "TrimSpace r = [] \<or> HasPrefix (TrimSpace r) ''#''"
  then show "AddRule E st r = Inr (False, st)"
    by (simp add: NormalizeRule_blank AddRule_empty)
next
  let ?n = "NormalizeRule E r"
  assume n: "?n \<noteq> []"
  show "case rule_kind ?n of
           KAll \<Rightarrow> \<exists>st'. AddRule E st r = Inr (True, st')
         | KReg \<Rightarrow>
             if regexp_Compile E (next_pattern st (cleanupFlags FlagsReg ?n))
             then \<exists>st'. AddRule E st r = Inr (True, st')
             else AddRule E st r = Inl (CompilePanic (next_pattern st (cleanupFlags FlagsReg ?n)))
         | KRzdb \<Rightarrow>
             if extensions st \<noteq> [] \<or> (NewIANAExtensions E \<noteq> None \<and> NewPSLExtensions E \<noteq> None)
             then \<exists>st'. AddRule E st r = Inr (True, st')
             else AddRule E st r = Inl FetchPanic
         | KNone \<Rightarrow>
             if handle_complement st \<and> is_http ?n \<and> ExtractNetLocationFromURL E ?n = None
             then AddRule E st r = Inr (False, st)
             else \<exists>st'. AddRule E st r = Inr (True, st')"
  proof (cases "rule_kind ?n")
    case KAll
    then show ?thesis using AddRule_KAll [OF refl n KAll, of st] by simp
  next
    case KReg
    then show ?thesis
      using AddRule_KReg [OF refl n KReg, of st]
      by (simp add: pushRegexRule_result)
  next
    case KRzdb
    have "HasFlag FlagsRzdb ?n" using KRzdb by (auto simp: rule_kind_def split: if_splits)
    then show ?thesis
      using KRzdb AddRule_KRzdb [OF refl n KRzdb, of st]
      by (auto simp: parseRZDBFlagedRule_def getKnownExtensions_result Let_def
            split: option.splits)
  next
    case KNone
    then show ?thesis
      using AddRule_KNone [OF refl n KNone, of st] parsePlainRule_result [of E st ?n]
      by (cases "parsePlainRule E st ?n") (auto split: if_splits)
  qed
qed


theorem AddRule_result_witness:
  "map_sum id fst (AddRule (go_env None None) (NewInternalRuler False) ''ALL .org'') = Inr True
   \<and> AddRule (go_env None None) (NewInternalRuler False) ''# comment''
       = Inr (False, NewInternalRuler False)"
proof -
  let ?E = "go_env None None"
  let ?st = "NewInternalRuler False"
  have n: "NormalizeRule ?E ''ALL .org'' = ''ALL .org''"
    by code_simp
  have k: "rule_kind ''ALL .org'' = KAll"
    by code_simp
  have c: "HasPrefix (TrimSpace ''# comment'') ''#''"
    by code_simp
  have "\<exists>st'. AddRule ?E ?st ''ALL .org'' = Inr (True, st')"
    using AddRule_result [of "''ALL .org''" ?E ?st] n k by simp
  moreover have "AddRule ?E ?st ''# comment'' = Inr (False, ?st)"
    using AddRule_result [of "''# comment''" ?E ?st] c by blast
  ultimately show ?thesis by auto
qed

text \<open>
  Claim C5 as stated fails: with complement handling, the line \<^verbatim>\<open>http://a b\<close> is not empty
  and no comment, \<^verbatim>\<open>url.Parse\<close> rejects it (a space in the host), and \<open>parsePlainRule\<close>
  returns false without indexing anything.
\<close>

theorem AddRule_url_counterexample:
  "TrimSpace ''http://a b'' \<noteq> [] \<and> \<not> HasPrefix (TrimSpace ''http://a b'') ''#''
   \<and> AddRule (go_env None None) (NewInternalRuler True) ''http://a b''
       = Inr (False, NewInternalRuler True)"
proof -
  let ?E = "go_env None None"
  have t: "TrimSpace ''http://a b'' \<noteq> [] \<and> \<not> HasPrefix (TrimSpace ''http://a b'') ''#''"
    by code_simp
  have n: "NormalizeRule ?E ''http://a b'' = ''http://a b''"
    by code_simp
  have k: "rule_kind ''http://a b'' = KNone"
    by code_simp
  have x: "ExtractNetLocationFromURL ?E ''http://a b'' = None"
    by code_simp
  have "parsePlainRule ?E (NewInternalRuler True) ''http://a b'' = (False, NewInternalRuler True)"
    using x by (simp add: parsePlainRule_def NewInternalRuler_def HasPrefix_def)
  then show ?thesis
    using t AddRule_KNone [OF n _ k, of "NewInternalRuler True"] by simp
qed

section \<open>The inline comment of a rule\<close>

text \<open>
  Claim C8 at the line \<^verbatim>\<open>example.com#comment\<close>: the text before the first \<^verbatim>\<open>#\<close> is
  \<^verbatim>\<open>example.com\<close>, which \<open>idnaze\<close> keeps, but \<open>NormalizeRule\<close> cuts the line one byte
  before the \<^verbatim>\<open>#\<close> and returns \<^verbatim>\<open>example.co\<close>.
\<close>

theorem NormalizeRule_inline_comment:
  "idnaze (go_env None None) (TrimSpace (fst (cut_at (TrimSpace ''example.com#comment'') ''#'')))
     = Some ''example.com''
   \<and> NormalizeRule (go_env None None) ''example.com#comment'' = ''example.co''"
  by code_simp


section \<open>Reading the indices\<close>

text \<open>Buckets of an arbitrary map.\<close>

lemma bucket_upd: "bucket (m(k \<mapsto> v)) k' = (if k' = k then v else bucket m k')"
  by (simp add: bucket_def)

lemma bucket_empty: "bucket Map.empty k = []"
  by (simp add: bucket_def)

lemma case_bucket_mem:
  "(case m k of None \<Rightarrow> False | Some rules \<Rightarrow> x \<in> set rules) = (x \<in> set (bucket m k))"
  by (simp add: bucket_def split: option.splits)

lemma case_bucket_ex:
  "(case m k of None \<Rightarrow> False | Some rules \<Rightarrow> list_ex P rules) = (\<exists>r \<in> set (bucket m k). P r)"
  by (auto simp: bucket_def list_ex_iff split: option.splits)

lemma subject_matches_iff:
  "subject_matches E st x =
     (strict_mem st x \<or> present_mem st x \<or> ends_hit st x \<or> regex_hit E st x)"
  unfolding subject_matches_def strict_mem_def present_mem_def ends_hit_def regex_hit_def
    slices_Contains_def HasSuffix_def Let_def case_bucket_mem case_bucket_ex
  by (rule refl)

lemma IsWhitelisted_iff:
  "IsWhitelisted E st s =
     (let n = NormalizeSubject E s (handle_complement st) in
      n \<noteq> [] \<and>
      (case ExtractNetLocationFromURL E n of
         None \<Rightarrow> False
       | Some h \<Rightarrow> subject_matches E st h \<or> (is_http n \<and> subject_matches E st n)))"
  by (auto simp: IsWhitelisted_def is_http_def Let_def split: option.splits)

text \<open>Two engines that answer every index probe alike give the same verdicts.\<close>

lemma IsWhitelisted_cong:
  assumes "handle_complement st' = handle_complement st"
    and "\<And>x. strict_mem st' x = strict_mem st x"
    and "\<And>x. present_mem st' x = present_mem st x"
    and "\<And>x. ends_hit st' x = ends_hit st x"
    and "\<And>x. regex_hit E st' x = regex_hit E st x"
  shows "IsWhitelisted E st' s = IsWhitelisted E st s"
  using assms by (simp add: IsWhitelisted_iff subject_matches_iff Let_def split: option.splits)

lemma fresh_probes [simp]:
  "\<not> strict_mem (NewInternalRuler hc) x" "\<not> present_mem (NewInternalRuler hc) x"
  "\<not> ends_hit (NewInternalRuler hc) x" "\<not> regex_hit E (NewInternalRuler hc) x"
  "handle_complement (NewInternalRuler hc) = hc" "extensions (NewInternalRuler hc) = []"
  "regex (NewInternalRuler hc) = []" "compiled_regexp (NewInternalRuler hc) = None"
  by (simp_all add: strict_mem_def present_mem_def ends_hit_def regex_hit_def
        NewInternalRuler_def bucket_empty)

lemma pushStrictRule_fields:
  "strict (pushStrictRule st y) =
     (strict st)(commonSearchKeyFromRule y \<mapsto> bucket (strict st) (commonSearchKeyFromRule y) @ [y])"
  "ends (pushStrictRule st y) = ends st"
  "present (pushStrictRule st y) = present st"
  "regex (pushStrictRule st y) = regex st"
  "compiled_regexp (pushStrictRule st y) = compiled_regexp st"
  "handle_complement (pushStrictRule st y) = handle_complement st"
  "extensions (pushStrictRule st y) = extensions st"
  by (simp_all add: pushStrictRule_def Let_def)

lemma pushEndsRule_fields:
  "ends (pushEndsRule st y) =
     (ends st)(endsSearchKeyFromRule y \<mapsto> bucket (ends st) (endsSearchKeyFromRule y) @ [y])"
  "strict (pushEndsRule st y) = strict st"
  "present (pushEndsRule st y) = present st"
  "regex (pushEndsRule st y) = regex st"
  "compiled_regexp (pushEndsRule st y) = compiled_regexp st"
  "handle_complement (pushEndsRule st y) = handle_complement st"
  "extensions (pushEndsRule st y) = extensions st"
  by (simp_all add: pushEndsRule_def Let_def)

lemma strict_mem_pushStrictRule:
  "strict_mem (pushStrictRule st y) x = (strict_mem st x \<or> x = y)"
  unfolding strict_mem_def pushStrictRule_fields bucket_upd by auto

lemma ends_hit_pushEndsRule:
  "ends_hit (pushEndsRule st y) x =
     (ends_hit st x \<or> (endsSearchKeyFromRule y = endsSearchKeyFromRule x \<and> suffix y x))"
  unfolding ends_hit_def pushEndsRule_fields bucket_upd by auto

lemma pushStrictRule_probes [simp]:
  "strict_mem (pushStrictRule st y) x = (strict_mem st x \<or> x = y)"
  "present_mem (pushStrictRule st y) x = present_mem st x"
  "ends_hit (pushStrictRule st y) x = ends_hit st x"
  "regex_hit E (pushStrictRule st y) x = regex_hit E st x"
  "handle_complement (pushStrictRule st y) = handle_complement st"
  "extensions (pushStrictRule st y) = extensions st"
  "regex (pushStrictRule st y) = regex st"
  "compiled_regexp (pushStrictRule st y) = compiled_regexp st"
  by (simp_all add: strict_mem_pushStrictRule present_mem_def ends_hit_def regex_hit_def
        pushStrictRule_fields)

lemma pushEndsRule_probes [simp]:
  "strict_mem (pushEndsRule st y) x = strict_mem st x"
  "present_mem (pushEndsRule st y) x = present_mem st x"
  "ends_hit (pushEndsRule st y) x =
     (ends_hit st x \<or> (endsSearchKeyFromRule y = endsSearchKeyFromRule x \<and> suffix y x))"
  "regex_hit E (pushEndsRule st y) x = regex_hit E st x"
  "handle_complement (pushEndsRule st y) = handle_complement st"
  "extensions (pushEndsRule st y) = extensions st"
  "regex (pushEndsRule st y) = regex st"
  "compiled_regexp (pushEndsRule st y) = compiled_regexp st"
  by (simp_all add: ends_hit_pushEndsRule present_mem_def strict_mem_def regex_hit_def
        pushEndsRule_fields)

lemma extensions_update_probes [simp]:
  "strict_mem (st\<lparr>extensions := e\<rparr>) x = strict_mem st x"
  "present_mem (st\<lparr>extensions := e\<rparr>) x = present_mem st x"
  "ends_hit (st\<lparr>extensions := e\<rparr>) x = ends_hit st x"
  "regex_hit E (st\<lparr>extensions := e\<rparr>) x = regex_hit E st x"
  by (simp_all add: strict_mem_def present_mem_def ends_hit_def regex_hit_def)

lemma push_extension_probes [simp]:
  "strict_mem (push_extension r st e) x =
     (strict_mem st x \<or> x = r @ ''.'' @ e \<or> (handle_complement st \<and> x = ''www.'' @ r @ ''.'' @ e))"
  "present_mem (push_extension r st e) x = present_mem st x"
  "ends_hit (push_extension r st e) x = ends_hit st x"
  "regex_hit E (push_extension r st e) x = regex_hit E st x"
  "handle_complement (push_extension r st e) = handle_complement st"
  by (auto simp: push_extension_def Let_def)

lemma foldl_push_extension_probes [simp]:
  "strict_mem (foldl (push_extension r) st es) x =
     (strict_mem st x \<or> (\<exists>e \<in> set es. x = r @ ''.'' @ e \<or> (handle_complement st \<and> x = ''www.'' @ r @ ''.'' @ e)))"
  "present_mem (foldl (push_extension r) st es) x = present_mem st x"
  "ends_hit (foldl (push_extension r) st es) x = ends_hit st x"
  "regex_hit E (foldl (push_extension r) st es) x = regex_hit E st x"
  "handle_complement (foldl (push_extension r) st es) = handle_complement st"
  by (induction es arbitrary: st) auto

text \<open>The net location of a bare host name, and of a URL with a plain host.\<close>

lemma Index_slash2_None: "Index p ''/'' = None \<Longrightarrow> Index p ''//'' = None"
  by (induction p) (auto split: if_splits)

lemma ExtractNetLocationFromURL_path:
  assumes "url_Parse E s = Some \<lparr>Host = [], Path = p\<rparr>" "s \<noteq> []" "p \<noteq> []"
    and "Index p ''/'' = None"
  shows "ExtractNetLocationFromURL E s = Some p"
  using assms by (simp add: ExtractNetLocationFromURL_def Index_slash2_None)

lemma ExtractNetLocationFromURL_host:
  assumes "url_Parse E s = Some \<lparr>Host = h, Path = p\<rparr>" "s \<noteq> []" "h \<noteq> []"
    and "Index h '':'' = None" "Index h ''/'' = None"
  shows "ExtractNetLocationFromURL E s = Some h"
  using assms by (simp add: ExtractNetLocationFromURL_def Index_slash2_None Contains_def)


section \<open>Queries on a concrete engine\<close>

lemma IsWhitelisted_host:
  assumes "NormalizeSubject E s (handle_complement st) = n" "n \<noteq> []" "\<not> is_http n"
    and "ExtractNetLocationFromURL E n = Some h"
  shows "IsWhitelisted E st s =
           (strict_mem st h \<or> present_mem st h \<or> ends_hit st h \<or> regex_hit E st h)"
  using assms by (simp add: IsWhitelisted_iff subject_matches_iff)

lemma IsWhitelisted_url:
  assumes "NormalizeSubject E s (handle_complement st) = n" "n \<noteq> []" "is_http n"
    and "ExtractNetLocationFromURL E n = Some h"
  shows "IsWhitelisted E st s =
           ((strict_mem st h \<or> present_mem st h \<or> ends_hit st h \<or> regex_hit E st h)
            \<or> (strict_mem st n \<or> present_mem st n \<or> ends_hit st n \<or> regex_hit E st n))"
  using assms by (simp add: IsWhitelisted_iff subject_matches_iff)

lemma parsePlainRule_host:
  "\<not> is_http n \<Longrightarrow>
   parsePlainRule E st n =
     (True, pushStrictRule
              (if handle_complement st
               then pushStrictRule st (if HasPrefix n ''www.'' then TrimPrefix n ''www.''
                                       else ''www.'' @ n)
               else st) n)"
  by (simp add: parsePlainRule_def is_http_def Let_def)

text \<open>
  Claim C1. On a fresh engine, with or without complement handling,
  \<open>AddRule("foo.example.com")\<close> returns true, and afterwards \<open>foo.example.com\<close> is
  whitelisted and \<open>bar.example.com\<close> is not. The hypotheses say what the libraries
  return on the two names: \<^verbatim>\<open>idna.ToASCII\<close> keeps them, and \<^verbatim>\<open>url.Parse\<close> reads each as a
  path without a host.
\<close>

theorem plain_rule_exact_match:
  assumes a1: "idna_ToASCII E ''foo.example.com'' = Some ''foo.example.com''"
    and a2: "idna_ToASCII E ''bar.example.com'' = Some ''bar.example.com''"
    and u1: "url_Parse E ''foo.example.com'' = Some \<lparr>Host = [], Path = ''foo.example.com''\<rparr>"
    and u2: "url_Parse E ''bar.example.com'' = Some \<lparr>Host = [], Path = ''bar.example.com''\<rparr>"
  shows "\<exists>st. AddRule E (NewInternalRuler hc) ''foo.example.com'' = Inr (True, st)
           \<and> IsWhitelisted E st ''foo.example.com''
           \<and> \<not> IsWhitelisted E st ''bar.example.com''"
proof -
  let ?init = "NewInternalRuler hc"
  let ?added = "pushStrictRule
               (if hc then pushStrictRule ?init ''www.foo.example.com'' else ?init) ''foo.example.com''"
  have nr: "NormalizeRule E ''foo.example.com'' = ''foo.example.com''"
    using a1 by code_simp (simp_all add: idnazeString_def)
  have k: "rule_kind ''foo.example.com'' = KNone"
    by code_simp
  have h: "\<not> is_http ''foo.example.com''" "\<not> is_http ''bar.example.com''"
    by code_simp+
  have add: "AddRule E ?init ''foo.example.com'' = Inr (True, ?added)"
    using AddRule_KNone [OF nr _ k, of ?init] h(1)
    by (simp add: parsePlainRule_host HasPrefix_def)
  have hc: "handle_complement ?added = hc" by simp
  have n1: "NormalizeSubject E ''foo.example.com'' hc = ''foo.example.com''"
    using a1 by code_simp (simp_all add: idnazeString_def TrimPrefix_def HasPrefix_def)
  have n2: "NormalizeSubject E ''bar.example.com'' hc = ''bar.example.com''"
    using a2 by code_simp (simp_all add: idnazeString_def TrimPrefix_def HasPrefix_def)
  have i1: "Index ''foo.example.com'' ''/'' = None" and i2: "Index ''bar.example.com'' ''/'' = None"
    by code_simp+
  have e1: "ExtractNetLocationFromURL E ''foo.example.com'' = Some ''foo.example.com''"
    using ExtractNetLocationFromURL_path [OF u1 _ _ i1] by simp
  have e2: "ExtractNetLocationFromURL E ''bar.example.com'' = Some ''bar.example.com''"
    using ExtractNetLocationFromURL_path [OF u2 _ _ i2] by simp
  have w1: "IsWhitelisted E ?added ''foo.example.com''"
    using IsWhitelisted_host [of E "''foo.example.com''" ?added, OF _ _ h(1) e1] n1 hc by simp
  have w2: "\<not> IsWhitelisted E ?added ''bar.example.com''"
    using IsWhitelisted_host [of E "''bar.example.com''" ?added, OF _ _ h(2) e2] n2 hc by simp
  show ?thesis using add w1 w2 by blast
qed

theorem plain_rule_exact_match_witness:
  "\<exists>st. AddRule (go_env None None) (NewInternalRuler False) ''foo.example.com'' = Inr (True, st)
         \<and> IsWhitelisted (go_env None None) st ''foo.example.com''
         \<and> \<not> IsWhitelisted (go_env None None) st ''bar.example.com''"
proof (rule plain_rule_exact_match)
  show "idna_ToASCII (go_env None None) ''foo.example.com'' = Some ''foo.example.com''"
    by code_simp
  show "idna_ToASCII (go_env None None) ''bar.example.com'' = Some ''bar.example.com''"
    by code_simp
  show "url_Parse (go_env None None) ''foo.example.com''
          = Some \<lparr>Host = [], Path = ''foo.example.com''\<rparr>"
    by code_simp
  show "url_Parse (go_env None None) ''bar.example.com''
          = Some \<lparr>Host = [], Path = ''bar.example.com''\<rparr>"
    by code_simp
qed


lemma parseAllFlaggedRule_dot:
  assumes "HasFlag FlagsAll n" "cleanupFlags FlagsAll n = record" "HasPrefix record ''.''"
    and "Count record CHR ''.'' \<le> 1"
  shows "parseAllFlaggedRule st n = (True, pushEndsRule st record)"
  using assms by (simp add: parseAllFlaggedRule_def Let_def)

text \<open>
  Claim C2. On a fresh engine, with or without complement handling, \<open>AddRule("ALL .org")\<close>
  returns true, and afterwards \<open>bar.example.org\<close> is whitelisted and \<open>example.com\<close> is not.
  The hypotheses say what the libraries return: \<^verbatim>\<open>idna.ToASCII\<close> keeps the two tokens
  of the rule and the two names, and \<^verbatim>\<open>url.Parse\<close> reads each name as a path without a
  host.
\<close>

theorem suffix_rule_match:
  assumes a1: "idna_ToASCII E ''ALL'' = Some ''ALL''"
    and a2: "idna_ToASCII E ''.org'' = Some ''.org''"
    and a3: "idna_ToASCII E ''bar.example.org'' = Some ''bar.example.org''"
    and a4: "idna_ToASCII E ''example.com'' = Some ''example.com''"
    and u1: "url_Parse E ''bar.example.org'' = Some \<lparr>Host = [], Path = ''bar.example.org''\<rparr>"
    and u2: "url_Parse E ''example.com'' = Some \<lparr>Host = [], Path = ''example.com''\<rparr>"
  shows "\<exists>st. AddRule E (NewInternalRuler hc) ''ALL .org'' = Inr (True, st)
           \<and> IsWhitelisted E st ''bar.example.org''
           \<and> \<not> IsWhitelisted E st ''example.com''"
proof -
  let ?init = "NewInternalRuler hc"
  let ?added = "pushEndsRule ?init ''.org''"
  have nr: "NormalizeRule E ''ALL .org'' = ''ALL .org''"
    using a1 a2 by code_simp (simp_all add: idnazeString_def)
  have k: "rule_kind ''ALL .org'' = KAll"
    by code_simp
  have f: "HasFlag FlagsAll ''ALL .org''" "cleanupFlags FlagsAll ''ALL .org'' = ''.org''"
    "HasPrefix ''.org'' ''.''" "Count ''.org'' CHR ''.'' \<le> 1"
    by code_simp+
  have add: "AddRule E ?init ''ALL .org'' = Inr (True, ?added)"
    using AddRule_KAll [OF nr _ k, of ?init] parseAllFlaggedRule_dot [OF f, of ?init] by simp
  have hc: "handle_complement ?added = hc" by simp
  have h: "\<not> is_http ''bar.example.org''" "\<not> is_http ''example.com''"
    by code_simp+
  have n1: "NormalizeSubject E ''bar.example.org'' hc = ''bar.example.org''"
    using a3 by code_simp (simp_all add: idnazeString_def TrimPrefix_def HasPrefix_def)
  have n2: "NormalizeSubject E ''example.com'' hc = ''example.com''"
    using a4 by code_simp (simp_all add: idnazeString_def TrimPrefix_def HasPrefix_def)
  have i1: "Index ''bar.example.org'' ''/'' = None" and i2: "Index ''example.com'' ''/'' = None"
    by code_simp+
  have e1: "ExtractNetLocationFromURL E ''bar.example.org'' = Some ''bar.example.org''"
    using ExtractNetLocationFromURL_path [OF u1 _ _ i1] by simp
  have e2: "ExtractNetLocationFromURL E ''example.com'' = Some ''example.com''"
    using ExtractNetLocationFromURL_path [OF u2 _ _ i2] by simp
  have s1: "endsSearchKeyFromRule ''.org'' = endsSearchKeyFromRule ''bar.example.org''
            \<and> suffix ''.org'' ''bar.example.org''"
    by code_simp
  have s2: "\<not> suffix ''.org'' ''example.com''"
    by code_simp
  have w1: "IsWhitelisted E ?added ''bar.example.org''"
    using IsWhitelisted_host [of E "''bar.example.org''" ?added, OF _ _ h(1) e1] n1 hc s1 by simp
  have w2: "\<not> IsWhitelisted E ?added ''example.com''"
    using IsWhitelisted_host [of E "''example.com''" ?added, OF _ _ h(2) e2] n2 hc s2 by simp
  show ?thesis using add w1 w2 by blast
qed

theorem suffix_rule_match_witness:
  "\<exists>st. AddRule (go_env None None) (NewInternalRuler False) ''ALL .org'' = Inr (True, st)
         \<and> IsWhitelisted (go_env None None) st ''bar.example.org''
         \<and> \<not> IsWhitelisted (go_env None None) st ''example.com''"
proof (rule suffix_rule_match)
  show "idna_ToASCII (go_env None None) ''ALL'' = Some ''ALL''"
    by code_simp
  show "idna_ToASCII (go_env None None) ''.org'' = Some ''.org''"
    by code_simp
  show "idna_ToASCII (go_env None None) ''bar.example.org'' = Some ''bar.example.org''"
    by code_simp
  show "idna_ToASCII (go_env None None) ''example.com'' = Some ''example.com''"
    by code_simp
  show "url_Parse (go_env None None) ''bar.example.org''
          = Some \<lparr>Host = [], Path = ''bar.example.org''\<rparr>"
    by code_simp
  show "url_Parse (go_env None None) ''example.com''
          = Some \<lparr>Host = [], Path = ''example.com''\<rparr>"
    by code_simp
qed


lemma parseRZDBFlagedRule_fresh:
  assumes "HasFlag FlagsRzdb n" "cleanupFlags FlagsRzdb n = record" "\<not> HasPrefix record ''www.''"
    and "extensions st = []" "NewIANAExtensions E = Some iana" "NewPSLExtensions E = Some psl"
  shows "parseRZDBFlagedRule E st n =
           Inr (True, foldl (push_extension record) (st\<lparr>extensions := iana @ psl\<rparr>) (iana @ psl))"
  using assms by (simp add: parseRZDBFlagedRule_def getKnownExtensions_def Let_def)

text \<open>
  Claim C3. The catalog is fixed by the two feeds, whose entries together are exactly
  \<open>de\<close>, \<open>com\<close>, \<open>org\<close> and \<open>net\<close>. On a fresh engine, with or without complement
  handling, adding the rule RZDB with the body \<open>gueter\<close> returns true, and afterwards
  the body followed by \<open>.de\<close>, \<open>.com\<close>, \<open>.org\<close> and \<open>.net\<close> is whitelisted and the body
  followed by \<open>.io\<close> is not. The hypotheses say what the libraries return:
  \<^verbatim>\<open>idna.ToASCII\<close> encodes the label as \<^verbatim>\<open>xn--gter-0ra\<close> and keeps the ASCII labels, and
  \<^verbatim>\<open>url.Parse\<close> reads each encoded name as a path without a host.
\<close>

theorem broad_rule_match:
  assumes iana: "NewIANAExtensions E = Some iana" and psl: "NewPSLExtensions E = Some psl"
    and catalog: "set (iana @ psl) = {''de'', ''com'', ''org'', ''net''}"
    and a0: "idna_ToASCII E ''RZDB'' = Some ''RZDB''"
    and a1: "idna_ToASCII E gueter = Some ''xn--gter-0ra''"
    and a2: "idna_ToASCII E (gueter @ ''.de'') = Some ''xn--gter-0ra.de''"
    and a3: "idna_ToASCII E (gueter @ ''.com'') = Some ''xn--gter-0ra.com''"
    and a4: "idna_ToASCII E (gueter @ ''.org'') = Some ''xn--gter-0ra.org''"
    and a5: "idna_ToASCII E (gueter @ ''.net'') = Some ''xn--gter-0ra.net''"
    and a6: "idna_ToASCII E (gueter @ ''.io'') = Some ''xn--gter-0ra.io''"
    and u2: "url_Parse E ''xn--gter-0ra.de'' = Some \<lparr>Host = [], Path = ''xn--gter-0ra.de''\<rparr>"
    and u3: "url_Parse E ''xn--gter-0ra.com'' = Some \<lparr>Host = [], Path = ''xn--gter-0ra.com''\<rparr>"
    and u4: "url_Parse E ''xn--gter-0ra.org'' = Some \<lparr>Host = [], Path = ''xn--gter-0ra.org''\<rparr>"
    and u5: "url_Parse E ''xn--gter-0ra.net'' = Some \<lparr>Host = [], Path = ''xn--gter-0ra.net''\<rparr>"
    and u6: "url_Parse E ''xn--gter-0ra.io'' = Some \<lparr>Host = [], Path = ''xn--gter-0ra.io''\<rparr>"
  shows "\<exists>st. AddRule E (NewInternalRuler hc) (''RZDB '' @ gueter) = Inr (True, st)
           \<and> IsWhitelisted E st (gueter @ ''.de'')
           \<and> IsWhitelisted E st (gueter @ ''.com'')
           \<and> IsWhitelisted E st (gueter @ ''.org'')
           \<and> IsWhitelisted E st (gueter @ ''.net'')
           \<and> \<not> IsWhitelisted E st (gueter @ ''.io'')"
proof -
  let ?init = "NewInternalRuler hc"
  let ?added = "foldl (push_extension ''xn--gter-0ra'') (?init\<lparr>extensions := iana @ psl\<rparr>) (iana @ psl)"
  note b = a1 [unfolded gueter_def, simplified] a2 [unfolded gueter_def, simplified]
    a3 [unfolded gueter_def, simplified] a4 [unfolded gueter_def, simplified]
    a5 [unfolded gueter_def, simplified] a6 [unfolded gueter_def, simplified]
  have nr: "NormalizeRule E (''RZDB '' @ gueter) = ''RZDB xn--gter-0ra''"
    using a0 b by code_simp (simp_all add: idnazeString_def)
  have k: "rule_kind ''RZDB xn--gter-0ra'' = KRzdb"
    by code_simp
  have f: "HasFlag FlagsRzdb ''RZDB xn--gter-0ra''"
    "cleanupFlags FlagsRzdb ''RZDB xn--gter-0ra'' = ''xn--gter-0ra''"
    "\<not> HasPrefix ''xn--gter-0ra'' ''www.''"
    by code_simp+
  have add: "AddRule E ?init (''RZDB '' @ gueter) = Inr (True, ?added)"
    using AddRule_KRzdb [OF nr _ k, of ?init]
      parseRZDBFlagedRule_fresh [OF f _ iana psl, of ?init] by simp
  have hc: "handle_complement ?added = hc" by (simp del: foldl_append)
  have h: "\<not> is_http ''xn--gter-0ra.de''" "\<not> is_http ''xn--gter-0ra.com''"
    "\<not> is_http ''xn--gter-0ra.org''" "\<not> is_http ''xn--gter-0ra.net''"
    "\<not> is_http ''xn--gter-0ra.io''"
    by code_simp+
  have n1: "NormalizeSubject E (gueter @ ''.de'') hc = ''xn--gter-0ra.de''"
    using b by code_simp (simp_all add: idnazeString_def TrimPrefix_def HasPrefix_def)
  have n2: "NormalizeSubject E (gueter @ ''.com'') hc = ''xn--gter-0ra.com''"
    using b by code_simp (simp_all add: idnazeString_def TrimPrefix_def HasPrefix_def)
  have n3: "NormalizeSubject E (gueter @ ''.org'') hc = ''xn--gter-0ra.org''"
    using b by code_simp (simp_all add: idnazeString_def TrimPrefix_def HasPrefix_def)
  have n4: "NormalizeSubject E (gueter @ ''.net'') hc = ''xn--gter-0ra.net''"
    using b by code_simp (simp_all add: idnazeString_def TrimPrefix_def HasPrefix_def)
  have n5: "NormalizeSubject E (gueter @ ''.io'') hc = ''xn--gter-0ra.io''"
    using b by code_simp (simp_all add: idnazeString_def TrimPrefix_def HasPrefix_def)
  note n = n1 n2 n3 n4 n5
  have i: "Index ''xn--gter-0ra.de'' ''/'' = None" "Index ''xn--gter-0ra.com'' ''/'' = None"
    "Index ''xn--gter-0ra.org'' ''/'' = None" "Index ''xn--gter-0ra.net'' ''/'' = None"
    "Index ''xn--gter-0ra.io'' ''/'' = None"
    by code_simp+
  have e: "ExtractNetLocationFromURL E ''xn--gter-0ra.de'' = Some ''xn--gter-0ra.de''"
    "ExtractNetLocationFromURL E ''xn--gter-0ra.com'' = Some ''xn--gter-0ra.com''"
    "ExtractNetLocationFromURL E ''xn--gter-0ra.org'' = Some ''xn--gter-0ra.org''"
    "ExtractNetLocationFromURL E ''xn--gter-0ra.net'' = Some ''xn--gter-0ra.net''"
    "ExtractNetLocationFromURL E ''xn--gter-0ra.io'' = Some ''xn--gter-0ra.io''"
    using ExtractNetLocationFromURL_path [OF u2 _ _ i(1)] ExtractNetLocationFromURL_path [OF u3 _ _ i(2)]
      ExtractNetLocationFromURL_path [OF u4 _ _ i(3)] ExtractNetLocationFromURL_path [OF u5 _ _ i(4)]
      ExtractNetLocationFromURL_path [OF u6 _ _ i(5)]
    by simp_all
  have w1: "IsWhitelisted E ?added (gueter @ ''.de'')"
    using IsWhitelisted_host [of E "gueter @ ''.de''" ?added, OF _ _ h(1) e(1)] n(1) hc
    by (simp add: catalog del: set_append foldl_append)
  have w2: "IsWhitelisted E ?added (gueter @ ''.com'')"
    using IsWhitelisted_host [of E "gueter @ ''.com''" ?added, OF _ _ h(2) e(2)] n(2) hc
    by (simp add: catalog del: set_append foldl_append)
  have w3: "IsWhitelisted E ?added (gueter @ ''.org'')"
    using IsWhitelisted_host [of E "gueter @ ''.org''" ?added, OF _ _ h(3) e(3)] n(3) hc
    by (simp add: catalog del: set_append foldl_append)
  have w4: "IsWhitelisted E ?added (gueter @ ''.net'')"
    using IsWhitelisted_host [of E "gueter @ ''.net''" ?added, OF _ _ h(4) e(4)] n(4) hc
    by (simp add: catalog del: set_append foldl_append)
  have w5: "\<not> IsWhitelisted E ?added (gueter @ ''.io'')"
    using IsWhitelisted_host [of E "gueter @ ''.io''" ?added, OF _ _ h(5) e(5)] n(5) hc
    by (simp add: catalog del: set_append foldl_append)
  show ?thesis using add w1 w2 w3 w4 w5 by blast
qed

theorem broad_rule_match_witness:
  "\<exists>st. AddRule (go_env (Some [''de'', ''com'']) (Some [''org'', ''net''])) (NewInternalRuler False) (''RZDB '' @ gueter) = Inr (True, st)
         \<and> IsWhitelisted (go_env (Some [''de'', ''com'']) (Some [''org'', ''net''])) st (gueter @ ''.de'')
         \<and> IsWhitelisted (go_env (Some [''de'', ''com'']) (Some [''org'', ''net''])) st (gueter @ ''.com'')
         \<and> IsWhitelisted (go_env (Some [''de'', ''com'']) (Some [''org'', ''net''])) st (gueter @ ''.org'')
         \<and> IsWhitelisted (go_env (Some [''de'', ''com'']) (Some [''org'', ''net''])) st (gueter @ ''.net'')
         \<and> \<not> IsWhitelisted (go_env (Some [''de'', ''com'']) (Some [''org'', ''net''])) st (gueter @ ''.io'')"
proof (rule broad_rule_match)
  show "NewIANAExtensions (go_env (Some [''de'', ''com'']) (Some [''org'', ''net''])) = Some [''de'', ''com'']"
    by (simp add: go_env_def)
  show "NewPSLExtensions (go_env (Some [''de'', ''com'']) (Some [''org'', ''net''])) = Some [''org'', ''net'']"
    by (simp add: go_env_def)
  show "set ([''de'', ''com''] @ [''org'', ''net'']) = {''de'', ''com'', ''org'', ''net''}"
    by auto
  show "idna_ToASCII (go_env (Some [''de'', ''com'']) (Some [''org'', ''net''])) ''RZDB'' = Some ''RZDB''"
    by code_simp
  show "idna_ToASCII (go_env (Some [''de'', ''com'']) (Some [''org'', ''net''])) gueter = Some ''xn--gter-0ra''"
    by code_simp
  show "idna_ToASCII (go_env (Some [''de'', ''com'']) (Some [''org'', ''net''])) (gueter @ ''.de'') = Some ''xn--gter-0ra.de''"
    by code_simp
  show "idna_ToASCII (go_env (Some [''de'', ''com'']) (Some [''org'', ''net''])) (gueter @ ''.com'') = Some ''xn--gter-0ra.com''"
    by code_simp
  show "idna_ToASCII (go_env (Some [''de'', ''com'']) (Some [''org'', ''net''])) (gueter @ ''.org'') = Some ''xn--gter-0ra.org''"
    by code_simp
  show "idna_ToASCII (go_env (Some [''de'', ''com'']) (Some [''org'', ''net''])) (gueter @ ''.net'') = Some ''xn--gter-0ra.net''"
    by code_simp
  show "idna_ToASCII (go_env (Some [''de'', ''com'']) (Some [''org'', ''net''])) (gueter @ ''.io'') = Some ''xn--gter-0ra.io''"
    by code_simp
  show "url_Parse (go_env (Some [''de'', ''com'']) (Some [''org'', ''net''])) ''xn--gter-0ra.de'' = Some \<lparr>Host = [], Path = ''xn--gter-0ra.de''\<rparr>"
    by code_simp
  show "url_Parse (go_env (Some [''de'', ''com'']) (Some [''org'', ''net''])) ''xn--gter-0ra.com'' = Some \<lparr>Host = [], Path = ''xn--gter-0ra.com''\<rparr>"
    by code_simp
  show "url_Parse (go_env (Some [''de'', ''com'']) (Some [''org'', ''net''])) ''xn--gter-0ra.org'' = Some \<lparr>Host = [], Path = ''xn--gter-0ra.org''\<rparr>"
    by code_simp
  show "url_Parse (go_env (Some [''de'', ''com'']) (Some [''org'', ''net''])) ''xn--gter-0ra.net'' = Some \<lparr>Host = [], Path = ''xn--gter-0ra.net''\<rparr>"
    by code_simp
  show "url_Parse (go_env (Some [''de'', ''com'']) (Some [''org'', ''net''])) ''xn--gter-0ra.io'' = Some \<lparr>Host = [], Path = ''xn--gter-0ra.io''\<rparr>"
    by code_simp
qed


lemma pushRegexRule_fresh:
  assumes "regex st = []" "compiled_regexp st = None" "regexp_Compile E rule"
  shows "pushRegexRule E st rule = Inr (st\<lparr>regex := rule, compiled_regexp := Some rule\<rparr>)"
  using assms by (simp add: pushRegexRule_result next_pattern_def)

lemma regex_update_probes [simp]:
  "strict_mem (st\<lparr>regex := r, compiled_regexp := c\<rparr>) x = strict_mem st x"
  "present_mem (st\<lparr>regex := r, compiled_regexp := c\<rparr>) x = present_mem st x"
  "ends_hit (st\<lparr>regex := r, compiled_regexp := c\<rparr>) x = ends_hit st x"
  "regex_hit E (st\<lparr>regex := r, compiled_regexp := c\<rparr>) x =
     (case c of None \<Rightarrow> False | Some re \<Rightarrow> regexp_MatchString E re x)"
  by (simp_all add: strict_mem_def present_mem_def ends_hit_def regex_hit_def)

text \<open>
  Claim C6. On a fresh engine, with or without complement handling, adding the rule
  REG with the body \<open>voeklingen\<close> followed by \<^verbatim>\<open>.*\<close> returns true, and afterwards
  \<open>voeklingen\<close> followed by \<^verbatim>\<open>.de\<close> is whitelisted. The hypotheses say what the libraries
  return: \<^verbatim>\<open>idna.ToASCII\<close> encodes the label as \<^verbatim>\<open>xn--vklingen-n4a\<close> and keeps \<^verbatim>\<open>REG\<close>,
  \<^verbatim>\<open>url.Parse\<close> reads the encoded name as a path without a host, and the expression
  \<^verbatim>\<open>xn--vklingen-n4a.*\<close> compiles and matches \<^verbatim>\<open>xn--vklingen-n4a.de\<close>.
\<close>

theorem regex_rule_match:
  assumes a0: "idna_ToASCII E ''REG'' = Some ''REG''"
    and a1: "idna_ToASCII E (voeklingen @ ''.*'') = Some ''xn--vklingen-n4a.*''"
    and a2: "idna_ToASCII E (voeklingen @ ''.de'') = Some ''xn--vklingen-n4a.de''"
    and u1: "url_Parse E ''xn--vklingen-n4a.de'' = Some \<lparr>Host = [], Path = ''xn--vklingen-n4a.de''\<rparr>"
    and c1: "regexp_Compile E ''xn--vklingen-n4a.*''"
    and m1: "regexp_MatchString E ''xn--vklingen-n4a.*'' ''xn--vklingen-n4a.de''"
  shows "\<exists>st. AddRule E (NewInternalRuler hc) (''REG '' @ voeklingen @ ''.*'') = Inr (True, st)
           \<and> IsWhitelisted E st (voeklingen @ ''.de'')"
proof -
  let ?init = "NewInternalRuler hc"
  let ?added = "?init\<lparr>regex := ''xn--vklingen-n4a.*'', compiled_regexp := Some ''xn--vklingen-n4a.*''\<rparr>"
  note b = a1 [unfolded voeklingen_def, simplified] a2 [unfolded voeklingen_def, simplified]
  have nr: "NormalizeRule E (''REG '' @ voeklingen @ ''.*'') = ''REG xn--vklingen-n4a.*''"
    using a0 b by code_simp (simp_all add: idnazeString_def)
  have k: "rule_kind ''REG xn--vklingen-n4a.*'' = KReg"
    by code_simp
  have cl: "cleanupFlags FlagsReg ''REG xn--vklingen-n4a.*'' = ''xn--vklingen-n4a.*''"
    by code_simp
  have add: "AddRule E ?init (''REG '' @ voeklingen @ ''.*'') = Inr (True, ?added)"
    using AddRule_KReg [OF nr _ k, of ?init] pushRegexRule_fresh [OF _ _ c1, of ?init]
    by (simp add: cl)
  have hc: "handle_complement ?added = hc" by simp
  have h: "\<not> is_http ''xn--vklingen-n4a.de''"
    by code_simp
  have n1: "NormalizeSubject E (voeklingen @ ''.de'') hc = ''xn--vklingen-n4a.de''"
    using b by code_simp (simp_all add: idnazeString_def TrimPrefix_def HasPrefix_def)
  have i1: "Index ''xn--vklingen-n4a.de'' ''/'' = None"
    by code_simp
  have e1: "ExtractNetLocationFromURL E ''xn--vklingen-n4a.de'' = Some ''xn--vklingen-n4a.de''"
    using ExtractNetLocationFromURL_path [OF u1 _ _ i1] by simp
  have w1: "IsWhitelisted E ?added (voeklingen @ ''.de'')"
    using IsWhitelisted_host [of E "voeklingen @ ''.de''" ?added, OF _ _ h e1] n1 hc m1 by simp
  show ?thesis using add w1 by blast
qed

theorem regex_rule_match_witness:
  "\<exists>st. AddRule (go_env None None) (NewInternalRuler False) (''REG '' @ voeklingen @ ''.*'')
           = Inr (True, st)
         \<and> IsWhitelisted (go_env None None) st (voeklingen @ ''.de'')"
proof (rule regex_rule_match)
  show "idna_ToASCII (go_env None None) ''REG'' = Some ''REG''"
    by code_simp
  show "idna_ToASCII (go_env None None) (voeklingen @ ''.*'') = Some ''xn--vklingen-n4a.*''"
    by code_simp
  show "idna_ToASCII (go_env None None) (voeklingen @ ''.de'') = Some ''xn--vklingen-n4a.de''"
    by code_simp
  show "url_Parse (go_env None None) ''xn--vklingen-n4a.de''
          = Some \<lparr>Host = [], Path = ''xn--vklingen-n4a.de''\<rparr>"
    by code_simp
  show "regexp_Compile (go_env None None) ''xn--vklingen-n4a.*''"
    by code_simp
  show "regexp_MatchString (go_env None None) ''xn--vklingen-n4a.*'' ''xn--vklingen-n4a.de''"
    by code_simp
qed


lemma NormalizeRule_url:
  "TrimSpace r = r \<Longrightarrow> is_http r \<Longrightarrow> NormalizeRule E r = NormalizeURL E r"
  by (cases r) (auto simp: NormalizeRule_def is_http_def HasPrefix_def)

lemma NormalizeSubject_url:
  "TrimSpace s = s \<Longrightarrow> is_http s \<Longrightarrow> NormalizeSubject E s hc = NormalizeURL E s"
  by (cases s) (auto simp: NormalizeSubject_def is_http_def HasPrefix_def)

lemma NormalizeURL_host:
  "ExtractNetLocationFromURL E u = Some h \<Longrightarrow> idnaze E h = Some h' \<Longrightarrow>
   NormalizeURL E u = Replace1 u h h'"
  by (simp add: NormalizeURL_def)

lemma parsePlainRule_url:
  assumes "is_http n" "ExtractNetLocationFromURL E n = Some h" "\<not> HasPrefix h ''www.''"
  shows "parsePlainRule E st n =
           (True, pushStrictRule
                    (if handle_complement st
                     then pushStrictRule st (ReplaceAll n h (''www.'' @ h)) else st) n)"
  using assms by (simp add: parsePlainRule_def is_http_def Let_def)

text \<open>
  Claim C7. On a fresh engine, with or without complement handling, the only rule
  added is the URL \<^verbatim>\<open>https://\<close>, \<open>saarbruecken\<close>, \<^verbatim>\<open>.saarland/foo/bar\<close>. Afterwards the URL
  of the host alone is not whitelisted and the full URL is. The hypotheses say what
  the libraries return: \<^verbatim>\<open>url.Parse\<close> splits the four URLs (the two subjects, before and
  after encoding) into host and path, and \<^verbatim>\<open>idna.ToASCII\<close> encodes the host as
  \<^verbatim>\<open>xn--saarbrcken-feb.saarland\<close>.
\<close>

theorem url_rule_match:
  assumes u1: "url_Parse E (''https://'' @ saarbruecken @ ''.saarland/foo/bar'')
                 = Some \<lparr>Host = saarbruecken @ ''.saarland'', Path = ''/foo/bar''\<rparr>"
    and u2: "url_Parse E ''https://xn--saarbrcken-feb.saarland/foo/bar''
                 = Some \<lparr>Host = ''xn--saarbrcken-feb.saarland'', Path = ''/foo/bar''\<rparr>"
    and u3: "url_Parse E (''https://'' @ saarbruecken @ ''.saarland'')
                 = Some \<lparr>Host = saarbruecken @ ''.saarland'', Path = []\<rparr>"
    and u4: "url_Parse E ''https://xn--saarbrcken-feb.saarland''
                 = Some \<lparr>Host = ''xn--saarbrcken-feb.saarland'', Path = []\<rparr>"
    and a1: "idna_ToASCII E (saarbruecken @ ''.saarland'') = Some ''xn--saarbrcken-feb.saarland''"
  shows "\<exists>st. AddRule E (NewInternalRuler hc) (''https://'' @ saarbruecken @ ''.saarland/foo/bar'')
                = Inr (True, st)
           \<and> \<not> IsWhitelisted E st (''https://'' @ saarbruecken @ ''.saarland'')
           \<and> IsWhitelisted E st (''https://'' @ saarbruecken @ ''.saarland/foo/bar'')"
proof -
  let ?R = "''https://'' @ saarbruecken @ ''.saarland/foo/bar''"
  let ?RN = "''https://xn--saarbrcken-feb.saarland/foo/bar''"
  let ?S = "''https://'' @ saarbruecken @ ''.saarland''"
  let ?SN = "''https://xn--saarbrcken-feb.saarland''"
  let ?H = "saarbruecken @ ''.saarland''"
  let ?HN = "''xn--saarbrcken-feb.saarland''"
  let ?init = "NewInternalRuler hc"
  let ?added = "pushStrictRule
                  (if hc then pushStrictRule ?init ''https://www.xn--saarbrcken-feb.saarland/foo/bar''
                   else ?init) ?RN"
  note b = a1 [unfolded saarbruecken_def, simplified]
  have t: "TrimSpace ?R = ?R" "TrimSpace ?S = ?S"
    by code_simp+
  have http: "is_http ?R" "is_http ?S" "is_http ?RN" "is_http ?SN"
    by code_simp+
  have ne: "?R \<noteq> []" "?S \<noteq> []" "?H \<noteq> []"
    by simp_all
  have ih: "Index ?H '':'' = None" "Index ?H ''/'' = None"
    "Index ?HN '':'' = None" "Index ?HN ''/'' = None"
    by code_simp+
  have eR: "ExtractNetLocationFromURL E ?R = Some ?H"
    using ExtractNetLocationFromURL_host [OF u1 ne(1) ne(3) ih(1,2)] .
  have eS: "ExtractNetLocationFromURL E ?S = Some ?H"
    using ExtractNetLocationFromURL_host [OF u3 ne(2) ne(3) ih(1,2)] .
  have eRN: "ExtractNetLocationFromURL E ?RN = Some ?HN"
    using ExtractNetLocationFromURL_host [OF u2 _ _ ih(3,4)] by simp
  have eSN: "ExtractNetLocationFromURL E ?SN = Some ?HN"
    using ExtractNetLocationFromURL_host [OF u4 _ _ ih(3,4)] by simp
  have idn: "idnaze E ?H = Some ?HN"
    using b by code_simp (simp_all add: idnazeString_def)
  have rep: "Replace1 ?R ?H ?HN = ?RN" "Replace1 ?S ?H ?HN = ?SN"
    "ReplaceAll ?RN ?HN (''www.'' @ ?HN) = ''https://www.xn--saarbrcken-feb.saarland/foo/bar''"
    by code_simp+
  have nr: "NormalizeRule E ?R = ?RN"
    using NormalizeRule_url [OF t(1) http(1), of E] NormalizeURL_host [OF eR idn] rep(1) by simp
  have k: "rule_kind ?RN = KNone"
    by code_simp
  have www: "\<not> HasPrefix ?HN ''www.''"
    by code_simp
  have add: "AddRule E ?init ?R = Inr (True, ?added)"
    using AddRule_KNone [OF nr _ k, of ?init] parsePlainRule_url [OF http(3) eRN www, of ?init] rep(3)
    by simp
  have hc: "handle_complement ?added = hc" by simp
  have nS: "NormalizeSubject E ?S hc = ?SN"
    using NormalizeSubject_url [OF t(2) http(2), of E hc] NormalizeURL_host [OF eS idn] rep(2) by simp
  have nR: "NormalizeSubject E ?R hc = ?RN"
    using NormalizeSubject_url [OF t(1) http(1), of E hc] NormalizeURL_host [OF eR idn] rep(1) by simp
  have w1: "\<not> IsWhitelisted E ?added ?S"
    using IsWhitelisted_url [of E ?S ?added, OF _ _ http(4) eSN] nS hc by simp
  have w2: "IsWhitelisted E ?added ?R"
    using IsWhitelisted_url [of E ?R ?added, OF _ _ http(3) eRN] nR hc by simp
  show ?thesis using add w1 w2 by blast
qed

theorem url_rule_match_witness:
  "\<exists>st. AddRule (go_env None None) (NewInternalRuler True)
           (''https://'' @ saarbruecken @ ''.saarland/foo/bar'') = Inr (True, st)
         \<and> \<not> IsWhitelisted (go_env None None) st (''https://'' @ saarbruecken @ ''.saarland'')
         \<and> IsWhitelisted (go_env None None) st (''https://'' @ saarbruecken @ ''.saarland/foo/bar'')"
proof (rule url_rule_match)
  show "url_Parse (go_env None None) (''https://'' @ saarbruecken @ ''.saarland/foo/bar'')
          = Some \<lparr>Host = saarbruecken @ ''.saarland'', Path = ''/foo/bar''\<rparr>"
    by code_simp
  show "url_Parse (go_env None None) ''https://xn--saarbrcken-feb.saarland/foo/bar''
          = Some \<lparr>Host = ''xn--saarbrcken-feb.saarland'', Path = ''/foo/bar''\<rparr>"
    by code_simp
  show "url_Parse (go_env None None) (''https://'' @ saarbruecken @ ''.saarland'')
          = Some \<lparr>Host = saarbruecken @ ''.saarland'', Path = []\<rparr>"
    by code_simp
  show "url_Parse (go_env None None) ''https://xn--saarbrcken-feb.saarland''
          = Some \<lparr>Host = ''xn--saarbrcken-feb.saarland'', Path = []\<rparr>"
    by code_simp
  show "idna_ToASCII (go_env None None) (saarbruecken @ ''.saarland'')
          = Some ''xn--saarbrcken-feb.saarland''"
    by code_simp
qed


lemma pull_from_bucket:
  "bucket (pull_from m k y) k' = (if k' = k then remove1 y (bucket m k) else bucket m k')"
  by (auto simp: pull_from_def bucket_def remove1_idem split: option.splits)

lemma pullStrictRule_fields:
  "strict (pullStrictRule st y) = pull_from (strict st) (commonSearchKeyFromRule y) y"
  "ends (pullStrictRule st y) = ends st"
  "present (pullStrictRule st y) = present st"
  "regex (pullStrictRule st y) = regex st"
  "compiled_regexp (pullStrictRule st y) = compiled_regexp st"
  "handle_complement (pullStrictRule st y) = handle_complement st"
  "extensions (pullStrictRule st y) = extensions st"
  by (simp_all add: pullStrictRule_def)

lemma strict_mem_pullStrictRule_other:
  "x \<noteq> y \<Longrightarrow> strict_mem (pullStrictRule st y) x = strict_mem st x"
  unfolding strict_mem_def pullStrictRule_fields pull_from_bucket by auto

lemma unparseRZDBFlagedRule_loaded:
  assumes "HasFlag FlagsRzdb n" "cleanupFlags FlagsRzdb n = record"
    and "extensions st \<noteq> []"
  shows "unparseRZDBFlagedRule E st n =
           Inr (True, foldl (pull_extension
                  (if handle_complement st \<and> HasPrefix record ''www.''
                   then TrimPrefix record ''www.'' else record)) st (extensions st))"
  using assms by (simp add: unparseRZDBFlagedRule_def getKnownExtensions_def Let_def)

lemma parseRZDBFlagedRule_fresh2:
  assumes "HasFlag FlagsRzdb n" "cleanupFlags FlagsRzdb n = record"
    and "extensions st = []" "NewIANAExtensions E = Some iana" "NewPSLExtensions E = Some psl"
  shows "parseRZDBFlagedRule E st n =
           Inr (True, foldl (push_extension
                  (let record = (if handle_complement st \<and> HasPrefix record ''www.''
                                 then TrimPrefix record ''www.'' else record)
                   in if handle_complement st \<and> HasPrefix record ''www.''
                      then TrimPrefix record ''www.'' else record))
                  (st\<lparr>extensions := iana @ psl\<rparr>) (iana @ psl))"
  using assms by (simp add: parseRZDBFlagedRule_def getKnownExtensions_def Let_def)

text \<open>
  Claim C4. The engine handles complements and its catalog, fetched from the feeds,
  is the single extension \<open>de\<close>. On the fresh engine \<open>foo.de\<close> is not whitelisted.
  Adding the rule \<^verbatim>\<open>RZDB www.www.foo\<close> returns true, removing the same rule from the
  resulting engine returns true, and afterwards \<open>foo.de\<close> is whitelisted:
  \<open>parseRZDBFlagedRule\<close> strips the prefix \<^verbatim>\<open>www.\<close> twice and indexes \<open>foo.de\<close> and
  \<open>www.foo.de\<close>, \<open>unparseRZDBFlagedRule\<close> strips it once and pulls \<open>www.foo.de\<close> and
  \<open>www.www.foo.de\<close>, so that \<open>foo.de\<close> stays in the strict index.
\<close>

theorem RZDB_add_remove_leaves_entry:
  "\<exists>st1 st2.
     \<not> IsWhitelisted (go_env (Some [''de'']) (Some [])) (NewInternalRuler True) ''foo.de''
     \<and> AddRule (go_env (Some [''de'']) (Some [])) (NewInternalRuler True) ''RZDB www.www.foo''
         = Inr (True, st1)
     \<and> RemoveRule (go_env (Some [''de'']) (Some [])) st1 ''RZDB www.www.foo'' = Inr (True, st2)
     \<and> IsWhitelisted (go_env (Some [''de'']) (Some [])) st2 ''foo.de''"
proof -
  let ?E = "go_env (Some [''de'']) (Some [])"
  let ?init = "NewInternalRuler True"
  let ?r = "''RZDB www.www.foo''"
  let ?st1 = "push_extension ''foo'' (?init\<lparr>extensions := [''de'']\<rparr>) ''de''"
  let ?st2 = "pull_extension ''www.foo'' ?st1 ''de''"
  have n: "NormalizeRule ?E ?r = ?r"
    by code_simp
  have k: "rule_kind ?r = KRzdb"
    by code_simp
  have f: "HasFlag FlagsRzdb ?r"
    using k by (auto simp: rule_kind_def split: if_splits)
  have c: "cleanupFlags FlagsRzdb ?r = ''www.www.foo''"
    by code_simp
  have feeds: "NewIANAExtensions ?E = Some [''de'']" "NewPSLExtensions ?E = Some []"
    by (simp_all add: go_env_def)
  have add: "AddRule ?E ?init ?r = Inr (True, ?st1)"
    using AddRule_KRzdb [OF n _ k, of ?init]
      parseRZDBFlagedRule_fresh2 [OF f c _ feeds, of ?init]
    by (simp add: HasPrefix_def TrimPrefix_def)
  have e1: "extensions ?st1 = [''de'']" and h1: "handle_complement ?st1"
    by (simp_all add: push_extension_def Let_def)
  have rem: "RemoveRule ?E ?st1 ?r = Inr (True, ?st2)"
    using RemoveRule_KRzdb [OF n _ k, of ?st1]
      unparseRZDBFlagedRule_loaded [OF f c, of ?st1 ?E] e1 h1
    by (simp add: HasPrefix_def TrimPrefix_def)
  have h2: "handle_complement ?st2" and hi: "handle_complement ?init"
    using h1 by (simp_all add: pull_extension_def Let_def pullStrictRule_fields)
  have ns: "NormalizeSubject ?E ''foo.de'' True = ''foo.de''"
    by code_simp
  have ex: "ExtractNetLocationFromURL ?E ''foo.de'' = Some ''foo.de''"
    by code_simp
  have nh: "\<not> is_http ''foo.de''"
    by code_simp
  have w0: "\<not> IsWhitelisted ?E ?init ''foo.de''"
    using IsWhitelisted_host [of ?E "''foo.de''" ?init, OF _ _ nh ex] ns hi by simp
  have m1: "strict_mem ?st1 ''foo.de''"
    by simp
  have m2: "strict_mem ?st2 ''foo.de''"
    using m1 h1 by (simp add: pull_extension_def Let_def strict_mem_pullStrictRule_other
        pullStrictRule_fields)
  have w2: "IsWhitelisted ?E ?st2 ''foo.de''"
    using IsWhitelisted_host [of ?E "''foo.de''" ?st2, OF _ _ nh ex] ns h2 m2 by simp
  show ?thesis using w0 add rem w2 by blast
qed

end
